theory Spec2Isabelle
  imports Complex_Main "HOL-Library.Multiset"
begin

section \<open>Exceptions, logging and sequencing\<close>

text \<open>
  The Python sources (\<^verbatim>\<open>scraper/ocr.py\<close>, \<^verbatim>\<open>scraper/captcha_solver.py\<close>,
  \<^verbatim>\<open>scraper/downloader.py\<close>) raise and catch exceptions and write to a logger.
  An exception is a value: its class and the message \<^verbatim>\<open>str(e)\<close>. Only subclasses of
  \<^verbatim>\<open>Exception\<close> are modelled (what \<^verbatim>\<open>except Exception\<close> catches).
\<close>

datatype exn_class =
    TesseractNotFoundError | AttributeError | KeyError | IndexError | ValueError
  | TimeoutException | NoSuchElementException | OtherException

datatype exn = Exn exn_class string

fun str_exn :: "exn \<Rightarrow> string" where
  "str_exn (Exn c m) = m"

datatype level = DEBUG | INFO | WARNING | ERROR

text \<open>
  A log entry is the level and the message of the logging statement that fired. The
  message is the statement's format string as written in the source: interpolated values
  are not expanded.
\<close>

type_synonym log_entry = "level \<times> string"

text \<open>
  A computation ends with an exception (\<open>Inl\<close>) or a value (\<open>Inr\<close>) and has written
  some log entries, in order.
\<close>

type_synonym 'a comp = "(exn + 'a) \<times> log_entry list"

definition ret :: "'a \<Rightarrow> 'a comp" where
  "ret a = (Inr a, [])"

definition lift :: "exn + 'a \<Rightarrow> 'a comp" where
  "lift r = (r, [])"

definition logger :: "level \<Rightarrow> string \<Rightarrow> unit comp" where
  "logger lv m = (Inr (), [(lv, m)])"

definition and_then :: "'a comp \<Rightarrow> ('a \<Rightarrow> 'b comp) \<Rightarrow> 'b comp" where
  "and_then m f =
     (case m of
        (Inl e, l) \<Rightarrow> (Inl e, l)
      | (Inr a, l) \<Rightarrow> (case f a of (r, l') \<Rightarrow> (r, l @ l')))"

definition try_except :: "'a comp \<Rightarrow> (exn \<Rightarrow> 'a comp) \<Rightarrow> 'a comp" where
  "try_except m h =
     (case m of
        (Inl e, l) \<Rightarrow> (case h e of (r, l') \<Rightarrow> (r, l @ l'))
      | (Inr a, l) \<Rightarrow> (Inr a, l))"

definition quoted :: "string \<Rightarrow> string" where
  "quoted s = CHR 0x27 # s @ [CHR 0x27]"

section \<open>Python strings and numbers\<close>

text \<open>
  \<^verbatim>\<open>str.isspace\<close> on the code points below 256 (a \<open>char\<close> is one of them):
  tab to carriage return, the four separators 28..31, space, NEL and no-break space.
\<close>

definition py_isspace :: "char \<Rightarrow> bool" where
  "py_isspace c = ((of_char c :: nat) \<in> {9, 10, 11, 12, 13, 28, 29, 30, 31, 32, 133, 160})"

definition py_strip :: "string \<Rightarrow> string" where
  "py_strip s = rev (dropWhile py_isspace (rev (dropWhile py_isspace s)))"

text \<open>\<^verbatim>\<open>str.split()\<close> with no argument: the maximal runs of non-whitespace.\<close>

fun split_ws :: "string \<Rightarrow> string \<Rightarrow> string list" where
  "split_ws acc [] = (if acc = [] then [] else [acc])"
| "split_ws acc (c # cs) =
     (if py_isspace c then (if acc = [] then split_ws [] cs else acc # split_ws [] cs)
      else split_ws (acc @ [c]) cs)"

definition py_split :: "string \<Rightarrow> string list" where
  "py_split s = split_ws [] s"

text \<open>
  Python 3 \<^verbatim>\<open>round(x)\<close> with one argument: the nearest integer, a tie going to the
  even one. The argument is an exact rational here; \<^verbatim>\<open>y / 10\<close> on a Python int is the
  float nearest to the quotient, which rounds to the same integer for every pixel
  coordinate (a tie \<open>k + 1/2\<close> is a float exactly).
\<close>

definition py_round :: "rat \<Rightarrow> int" where
  "py_round q =
     (let f = \<lfloor>q\<rfloor>; d = q - of_int f in
      if d < 1 / 2 then f
      else if 1 / 2 < d then f + 1
      else if even f then f else f + 1)"

section \<open>The OCR module: \<^verbatim>\<open>scraper/ocr.py\<close>\<close>

text \<open>
  The dictionary \<^verbatim>\<open>pytesseract.image_to_data(..., output_type=Output.DICT)\<close> returns,
  as far as the code reads it: six columns, each a list, each looked up by key (a missing
  key raises \<^verbatim>\<open>KeyError\<close>). \<^verbatim>\<open>int(conf)\<close> is the identity on the integer column.
\<close>

record tess_data =
  d_left :: "int list option"
  d_top :: "int list option"
  d_width :: "int list option"
  d_height :: "int list option"
  d_confidence :: "int list option"
  d_text :: "string list option"

definition empty_dict :: tess_data where
  "empty_dict = \<lparr>d_left = None, d_top = None, d_width = None, d_height = None,
                  d_confidence = None, d_text = None\<rparr>"

definition getitem :: "string \<Rightarrow> 'a option \<Rightarrow> exn + 'a" where
  "getitem key col = (case col of None \<Rightarrow> Inl (Exn KeyError (quoted key)) | Some v \<Rightarrow> Inr v)"

type_synonym bytes = "char list"

datatype interpolation = INTER_NEAREST | INTER_LINEAR | INTER_CUBIC

text \<open>
  The libraries the module calls (PIL, base64, numpy, OpenCV, pytesseract) are parameters:
  \<open>'img\<close> is a PIL image, \<open>'arr\<close> a numpy array, and every call may raise.
\<close>

record ('img, 'arr) ocr_env =
  Image_open_path :: "string \<Rightarrow> exn + 'img"
  Image_open_bytes :: "bytes \<Rightarrow> exn + 'img"
  b64decode :: "string \<Rightarrow> exn + bytes"
  astype_uint8 :: "'arr \<Rightarrow> exn + 'arr"
  Image_fromarray :: "'arr \<Rightarrow> exn + 'img"
  np_array :: "'img \<Rightarrow> exn + 'arr"
  shape :: "'arr \<Rightarrow> nat list"
  cvtColor_RGB2GRAY :: "'arr \<Rightarrow> exn + 'arr"
  threshold_BINARY :: "'arr \<Rightarrow> nat \<Rightarrow> nat \<Rightarrow> exn + 'arr"
  fastNlMeansDenoising :: "'arr \<Rightarrow> nat \<Rightarrow> exn + 'arr"
  resize :: "'arr \<Rightarrow> int \<Rightarrow> int \<Rightarrow> interpolation \<Rightarrow> exn + 'arr"
  image_to_string :: "'img \<Rightarrow> string \<Rightarrow> exn + string"
  image_to_data :: "'img \<Rightarrow> string \<Rightarrow> exn + tess_data"

text \<open>The argument of \<^verbatim>\<open>_load_image\<close>, by its run-time type.\<close>

datatype ('img, 'arr) image_source =
    PilImage 'img | NdArray 'arr | Bytes bytes | Str string | Unsupported

record ocr_processor =
  language :: string
  enable_preprocessing :: bool

definition OCRProcessor_init :: "string \<Rightarrow> bool \<Rightarrow> ocr_processor comp" where
  "OCRProcessor_init lang pre =
     and_then (logger INFO ''Initialized OCR processor with language: {language}'')
       (\<lambda>_. ret \<lparr>language = lang, enable_preprocessing = pre\<rparr>)"

definition startswith_path_prefix :: "string \<Rightarrow> bool" where
  "startswith_path_prefix s =
     (case s of [] \<Rightarrow> False | c # _ \<Rightarrow> c = CHR ''/'' \<or> c = CHR ''.'')"

text \<open>\<^verbatim>\<open>OCRProcessor._load_image\<close>; the bare \<^verbatim>\<open>except:\<close> catches every failure of the
  base64 attempt.\<close>

definition load_image :: "('img, 'arr) ocr_env \<Rightarrow> ('img, 'arr) image_source \<Rightarrow> exn + 'img" where
  "load_image env src =
     (case src of
        PilImage img \<Rightarrow> Inr img
      | NdArray a \<Rightarrow>
          (case astype_uint8 env a of Inl e \<Rightarrow> Inl e | Inr a' \<Rightarrow> Image_fromarray env a')
      | Bytes b \<Rightarrow> Image_open_bytes env b
      | Str s \<Rightarrow>
          (if startswith_path_prefix s then Image_open_path env s
           else
             (case b64decode env s of
                Inl e \<Rightarrow> Image_open_path env s
              | Inr img_data \<Rightarrow>
                  (case Image_open_bytes env img_data of
                     Inl e \<Rightarrow> Image_open_path env s
                   | Inr img \<Rightarrow> Inr img)))
      | Unsupported \<Rightarrow> Inl (Exn ValueError ''Unsupported image source type: {type(image_source)}''))"

text \<open>The body of the \<^verbatim>\<open>try\<close> block of \<^verbatim>\<open>OCRProcessor._preprocess_image\<close>, step by step.\<close>

definition to_gray :: "('img, 'arr) ocr_env \<Rightarrow> 'arr \<Rightarrow> exn + 'arr" where
  "to_gray env img_array =
     (if length (shape env img_array) = 3 then cvtColor_RGB2GRAY env img_array
      else Inr img_array)"

definition upscale :: "('img, 'arr) ocr_env \<Rightarrow> 'arr \<Rightarrow> exn + 'arr" where
  "upscale env img_denoised =
     (case shape env img_denoised of
        [] \<Rightarrow> Inl (Exn IndexError ''tuple index out of range'')
      | h # _ \<Rightarrow>
          (if h < 300 then (let scale = 2 in resize env img_denoised scale scale INTER_CUBIC)
           else Inr img_denoised))"

definition denoised :: "('img, 'arr) ocr_env \<Rightarrow> 'img \<Rightarrow> exn + 'arr" where
  "denoised env img =
     (case np_array env img of
        Inl e \<Rightarrow> Inl e
      | Inr img_array \<Rightarrow>
          (case to_gray env img_array of
             Inl e \<Rightarrow> Inl e
           | Inr img_gray \<Rightarrow>
               (case threshold_BINARY env img_gray 150 255 of
                  Inl e \<Rightarrow> Inl e
                | Inr img_binary \<Rightarrow> fastNlMeansDenoising env img_binary 10)))"

definition preprocess_steps :: "('img, 'arr) ocr_env \<Rightarrow> 'img \<Rightarrow> exn + 'img" where
  "preprocess_steps env img =
     (case denoised env img of
        Inl e \<Rightarrow> Inl e
      | Inr img_denoised \<Rightarrow>
          (case upscale env img_denoised of
             Inl e \<Rightarrow> Inl e
           | Inr img_scaled \<Rightarrow> Image_fromarray env img_scaled))"

text \<open>\<^verbatim>\<open>OCRProcessor._preprocess_image\<close>: the steps under \<^verbatim>\<open>except Exception\<close>.\<close>

definition preprocess_image :: "('img, 'arr) ocr_env \<Rightarrow> 'img \<Rightarrow> 'img comp" where
  "preprocess_image env img =
     try_except (lift (preprocess_steps env img))
       (\<lambda>e. and_then (logger WARNING ''Error preprocessing image: {e}. Using original image.'')
              (\<lambda>_. ret img))"

text \<open>Lines 61 and 62 of \<^verbatim>\<open>extract_text_from_image\<close>: the average confidence. Python's
  \<^verbatim>\<open>/\<close> on two ints is the float nearest to the exact quotient; the model keeps the exact
  quotient.\<close>

definition avg_confidence :: "int list \<Rightarrow> rat" where
  "avg_confidence confs =
     (let confidences = filter (\<lambda>conf. 0 < conf) confs in
      if confidences \<noteq> [] then of_int (sum_list confidences) / of_nat (length confidences)
      else 0)"

record text_result =
  r_text :: string
  r_confidence :: rat
  r_word_count :: nat
  r_language :: string
  r_data :: tess_data
  r_success :: bool
  r_error :: "string option"

definition maybe_preprocess :: "ocr_processor \<Rightarrow> ('img, 'arr) ocr_env \<Rightarrow> 'img \<Rightarrow> 'img comp" where
  "maybe_preprocess self env img =
     (if enable_preprocessing self then preprocess_image env img else ret img)"

text \<open>The dictionary of lines 76 to 84, returned when the \<^verbatim>\<open>try\<close> block raised.\<close>

definition failure_result :: "ocr_processor \<Rightarrow> exn \<Rightarrow> text_result" where
  "failure_result self e =
     \<lparr>r_text = [], r_confidence = 0, r_word_count = 0, r_language = language self,
      r_data = empty_dict, r_success = False, r_error = Some (str_exn e)\<rparr>"

text \<open>\<^verbatim>\<open>OCRProcessor.extract_text_from_image\<close>.\<close>

definition extract_text_from_image ::
  "ocr_processor \<Rightarrow> ('img, 'arr) ocr_env \<Rightarrow> ('img, 'arr) image_source \<Rightarrow> text_result comp" where
  "extract_text_from_image self env image_source =
     try_except
       (and_then (lift (load_image env image_source)) (\<lambda>img0.
        and_then (maybe_preprocess self env img0) (\<lambda>img.
        and_then (lift (image_to_string env img (language self))) (\<lambda>txt.
        and_then (lift (image_to_data env img (language self))) (\<lambda>data.
        and_then (lift (getitem ''confidence'' (d_confidence data))) (\<lambda>confs.
        let avg = avg_confidence confs in
        and_then (logger INFO
          ''Extracted text from image with {len(text)} characters, confidence: {avg_confidence:.2f}%'')
          (\<lambda>_. ret \<lparr>r_text = py_strip txt, r_confidence = avg,
                     r_word_count = length (py_split txt), r_language = language self,
                     r_data = data, r_success = True, r_error = None\<rparr>)))))))
       (\<lambda>e. and_then (logger ERROR ''Error extracting text from image: {e}'')
              (\<lambda>_. ret (failure_result self e)))"

section \<open>Table reconstruction: \<^verbatim>\<open>OCRProcessor.extract_table_data\<close>\<close>

text \<open>Line 112: \<^verbatim>\<open>row_key = round(y / 10) * 10\<close>.\<close>

definition row_key :: "int \<Rightarrow> int" where
  "row_key y = py_round (of_int y / 10) * 10"

text \<open>The dictionary \<^verbatim>\<open>{'x': x, 'text': text, 'conf': int(conf)}\<close> appended to a row.\<close>

record item =
  it_x :: int
  it_text :: string
  it_conf :: int

text \<open>
  The dictionary \<^verbatim>\<open>rows\<close>, as an association list in insertion order with one entry per
  key. \<open>rows_append\<close> is lines 113 to 115: create the key with an empty list when it is
  absent, then append to its list.
\<close>

type_synonym rows = "(int \<times> item list) list"

fun rows_append :: "rows \<Rightarrow> int \<Rightarrow> item \<Rightarrow> rows" where
  "rows_append [] k it = [(k, [it])]"
| "rows_append ((k', its) # rs) k it =
     (if k' = k then (k', its @ [it]) # rs else (k', its) # rows_append rs k it)"

text \<open>The condition of line 111: \<^verbatim>\<open>int(conf) > 0 and text.strip()\<close>.\<close>

definition qualifies :: "int \<Rightarrow> string \<Rightarrow> bool" where
  "qualifies conf txt = (0 < conf \<and> py_strip txt \<noteq> [])"

text \<open>One tuple of the zip of line 107: \<^verbatim>\<open>(x, y, w, h, conf, text)\<close>.\<close>

type_synonym token = "int \<times> int \<times> int \<times> int \<times> int \<times> string"

text \<open>The loop of lines 107 to 115 over the zipped columns.\<close>

fun group_rows :: "token list \<Rightarrow> rows \<Rightarrow> rows" where
  "group_rows [] rows = rows"
| "group_rows ((x, y, w, h, conf, txt) # rest) rows =
     (if qualifies conf txt
      then group_rows rest (rows_append rows (row_key y) \<lparr>it_x = x, it_text = txt, it_conf = conf\<rparr>)
      else group_rows rest rows)"

text \<open>\<^verbatim>\<open>rows[row_key]\<close> for a key taken from \<^verbatim>\<open>rows.keys()\<close>.\<close>

definition rows_get :: "rows \<Rightarrow> int \<Rightarrow> item list" where
  "rows_get rows k = (case map_of rows k of None \<Rightarrow> [] | Some its \<Rightarrow> its)"

text \<open>Lines 118 to 122: the keys ascending, each row sorted by \<^verbatim>\<open>x\<close> (Python's sort is
  stable, as \<open>sort_key\<close> is), keeping the text.\<close>

definition sorted_items :: "rows \<Rightarrow> (int \<times> item list) list" where
  "sorted_items rows = map (\<lambda>k. (k, sort_key it_x (rows_get rows k))) (sort (map fst rows))"

definition sorted_rows :: "rows \<Rightarrow> string list list" where
  "sorted_rows rows = map (\<lambda>(k, row_data). map it_text row_data) (sorted_items rows)"

definition zip_columns ::
  "int list \<Rightarrow> int list \<Rightarrow> int list \<Rightarrow> int list \<Rightarrow> int list \<Rightarrow> string list
    \<Rightarrow> token list" where
  "zip_columns ls ts ws hs cs xs = zip ls (zip ts (zip ws (zip hs (zip cs xs))))"

text \<open>The six lookups of lines 108 and 109, in the order Python evaluates them.\<close>

definition token_columns :: "tess_data \<Rightarrow> exn + token list" where
  "token_columns data =
     (case getitem ''left'' (d_left data) of Inl e \<Rightarrow> Inl e | Inr ls \<Rightarrow>
     (case getitem ''top'' (d_top data) of Inl e \<Rightarrow> Inl e | Inr ts \<Rightarrow>
     (case getitem ''width'' (d_width data) of Inl e \<Rightarrow> Inl e | Inr ws \<Rightarrow>
     (case getitem ''height'' (d_height data) of Inl e \<Rightarrow> Inl e | Inr hs \<Rightarrow>
     (case getitem ''confidence'' (d_confidence data) of Inl e \<Rightarrow> Inl e | Inr cs \<Rightarrow>
     (case getitem ''text'' (d_text data) of Inl e \<Rightarrow> Inl e | Inr xs \<Rightarrow>
      Inr (zip_columns ls ts ws hs cs xs)))))))"

text \<open>Lines 105 to 122 on the recognised data: what \<^verbatim>\<open>sorted_rows\<close> holds at line 124.\<close>

definition reconstruct_table :: "token list \<Rightarrow> string list list" where
  "reconstruct_table tokens = sorted_rows (group_rows tokens [])"

record table_result =
  t_table :: "string list list"
  t_row_count :: nat
  t_success :: bool
  t_error :: "string option"

definition extract_table_data ::
  "ocr_processor \<Rightarrow> ('img, 'arr) ocr_env \<Rightarrow> ('img, 'arr) image_source \<Rightarrow> table_result comp" where
  "extract_table_data self env image_source =
     try_except
       (and_then (lift (load_image env image_source)) (\<lambda>img0.
        and_then (maybe_preprocess self env img0) (\<lambda>img.
        and_then (lift (image_to_data env img (language self))) (\<lambda>data.
        and_then (lift (token_columns data)) (\<lambda>tokens.
        let rows_sorted = reconstruct_table tokens in
        and_then (logger INFO ''Extracted table with {len(sorted_rows)} rows'')
          (\<lambda>_. ret \<lparr>t_table = rows_sorted, t_row_count = length rows_sorted,
                     t_success = True, t_error = None\<rparr>))))))
       (\<lambda>e. and_then (logger ERROR ''Error extracting table data: {e}'')
              (\<lambda>_. ret \<lparr>t_table = [], t_row_count = 0, t_success = False,
                         t_error = Some (str_exn e)\<rparr>))"

section \<open>The CAPTCHA solver: \<^verbatim>\<open>scraper/captcha_solver.py\<close>\<close>

datatype locator = By_ID | By_CSS_SELECTOR | By_XPATH

text \<open>
  The browser (Selenium), HTTP (requests), \<^verbatim>\<open>urljoin\<close>, PIL and the download directory
  are parameters: \<open>'elem\<close> is a web element, and every call but \<^verbatim>\<open>urljoin\<close> may raise.
  \<open>wait_presence\<close> is \<^verbatim>\<open>WebDriverWait(driver, 10).until(EC.presence_of_element_located(...))\<close>,
  \<open>wait_clickable\<close> the same with \<^verbatim>\<open>element_to_be_clickable\<close>; \<open>requests_get\<close> is
  \<^verbatim>\<open>requests.get(url, timeout=10)\<close>, \<^verbatim>\<open>raise_for_status()\<close> and the response's content;
  \<open>latest_file\<close> is the \<^verbatim>\<open>max(...)\<close> of \<^verbatim>\<open>_get_latest_download\<close>.
\<close>

record ('img, 'elem) web_env =
  wait_presence :: "locator \<Rightarrow> string \<Rightarrow> exn + 'elem"
  wait_clickable :: "locator \<Rightarrow> string \<Rightarrow> exn + 'elem"
  find_element :: "locator \<Rightarrow> string \<Rightarrow> exn + 'elem"
  get_attribute :: "'elem \<Rightarrow> string \<Rightarrow> exn + string option"
  clear :: "'elem \<Rightarrow> exn + unit"
  send_keys :: "'elem \<Rightarrow> string \<Rightarrow> exn + unit"
  click :: "'elem \<Rightarrow> exn + unit"
  driver_get :: "string \<Rightarrow> exn + unit"
  urljoin :: "string \<Rightarrow> string \<Rightarrow> string"
  requests_get :: "string \<Rightarrow> exn + bytes"
  Image_open :: "bytes \<Rightarrow> exn + 'img"
  latest_file :: "exn + string option"

text \<open>
  The object bound to \<^verbatim>\<open>self.ocr_processor\<close>: an instance of the class \<^verbatim>\<open>OCRProcessor\<close>
  of \<^verbatim>\<open>ocr.py\<close>, or any other object, of which only the method \<^verbatim>\<open>extract_text\<close> matters
  (a subclass or a stub that defines it). The class \<^verbatim>\<open>OCRProcessor\<close> defines
  \<^verbatim>\<open>extract_text_from_image\<close>, \<^verbatim>\<open>extract_table_data\<close>, \<^verbatim>\<open>batch_extract_text\<close>,
  \<^verbatim>\<open>set_language\<close> and \<^verbatim>\<open>validate_tesseract\<close>, and no \<^verbatim>\<open>extract_text\<close>: the attribute
  lookup raises \<^verbatim>\<open>AttributeError\<close>.
\<close>

datatype 'img ocr_object =
    OCRProcessor_obj ocr_processor
  | Duck "'img \<Rightarrow> exn + string option"

fun call_extract_text :: "'img ocr_object \<Rightarrow> 'img \<Rightarrow> exn + string option" where
  "call_extract_text (OCRProcessor_obj p) img =
     Inl (Exn AttributeError
       (quoted ''OCRProcessor'' @ '' object has no attribute '' @ quoted ''extract_text''))"
| "call_extract_text (Duck extract_text) img = extract_text img"

record 'img captcha_solver =
  ocr_processor :: "'img ocr_object"
  base_url :: string

text \<open>\<^verbatim>\<open>CaptchaSolver.__init__\<close>: \<^verbatim>\<open>ocr_processor or OCRProcessor()\<close>.\<close>

definition CaptchaSolver_init :: "'img ocr_object option \<Rightarrow> 'img captcha_solver comp" where
  "CaptchaSolver_init given =
     (case given of
        Some obj \<Rightarrow> ret \<lparr>ocr_processor = obj, base_url = ''http://www.mercadopublico.cl''\<rparr>
      | None \<Rightarrow>
          and_then (OCRProcessor_init ''spa'' True)
            (\<lambda>p. ret \<lparr>ocr_processor = OCRProcessor_obj p,
                       base_url = ''http://www.mercadopublico.cl''\<rparr>))"

definition captcha_xpath :: string where
  "captcha_xpath = ''//img[contains(@src, '' @ quoted ''Captcha'' @ '')]''"

definition startswith :: "string \<Rightarrow> string \<Rightarrow> bool" where
  "startswith s p = (take (length p) s = p)"

text \<open>\<^verbatim>\<open>CaptchaSolver._download_image\<close>.\<close>

definition download_image ::
  "'img captcha_solver \<Rightarrow> ('img, 'elem) web_env \<Rightarrow> string \<Rightarrow> 'img option comp" where
  "download_image self env url0 =
     (let url = (if \<not> startswith url0 ''http'' then urljoin env (base_url self) url0 else url0) in
      try_except
        (and_then (lift (requests_get env url)) (\<lambda>content.
         and_then (lift (Image_open env content)) (\<lambda>img. ret (Some img))))
        (\<lambda>e. and_then (logger ERROR ''Error downloading image from {url}: {e}'')
               (\<lambda>_. ret None)))"

text \<open>\<^verbatim>\<open>CaptchaSolver._extract_captcha_text\<close>. \<^verbatim>\<open>not img_src\<close> holds for \<^verbatim>\<open>None\<close> and for
  the empty string, as does \<^verbatim>\<open>captcha_text\<close> being falsy.\<close>

definition truthy :: "string option \<Rightarrow> bool" where
  "truthy s = (case s of None \<Rightarrow> False | Some v \<Rightarrow> v \<noteq> [])"

definition str_of :: "string option \<Rightarrow> string" where
  "str_of s = (case s of None \<Rightarrow> [] | Some v \<Rightarrow> v)"

definition extract_captcha_text ::
  "'img captcha_solver \<Rightarrow> ('img, 'elem) web_env \<Rightarrow> string option comp" where
  "extract_captcha_text self env =
     try_except
       (and_then (lift (wait_presence env By_XPATH captcha_xpath)) (\<lambda>captcha_img.
        and_then (lift (get_attribute env captcha_img ''src'')) (\<lambda>img_src.
        if \<not> truthy img_src
        then and_then (logger ERROR ''CAPTCHA image source not found'') (\<lambda>_. ret None)
        else
          and_then (download_image self env (str_of img_src)) (\<lambda>img_data.
          case img_data of
            None \<Rightarrow> ret None
          | Some img \<Rightarrow>
              and_then (lift (call_extract_text (ocr_processor self) img)) (\<lambda>captcha_text.
              ret (if truthy captcha_text then Some (py_strip (str_of captcha_text)) else None))))))
       (\<lambda>e. and_then (logger ERROR ''Error extracting CAPTCHA text: {e}'') (\<lambda>_. ret None))"

text \<open>\<^verbatim>\<open>CaptchaSolver._input_captcha_text\<close>: the lookup by id, on its failure the lookup by
  the CSS selector \<^verbatim>\<open>#<id>\<close>, then \<^verbatim>\<open>clear\<close> and \<^verbatim>\<open>send_keys\<close>.\<close>

definition lookup_field :: "('img, 'elem) web_env \<Rightarrow> string \<Rightarrow> exn + 'elem" where
  "lookup_field env input_id =
     (case find_element env By_ID input_id of
        Inr input_field \<Rightarrow> Inr input_field
      | Inl e \<Rightarrow> find_element env By_CSS_SELECTOR (CHR ''#'' # input_id))"

definition input_captcha_text :: "('img, 'elem) web_env \<Rightarrow> string \<Rightarrow> string \<Rightarrow> bool comp" where
  "input_captcha_text env txt input_id =
     try_except
       (and_then (lift (lookup_field env input_id)) (\<lambda>input_field.
        and_then (lift (clear env input_field)) (\<lambda>_.
        and_then (lift (send_keys env input_field txt)) (\<lambda>_.
        and_then (logger DEBUG ''Entered CAPTCHA text into field {input_id}'') (\<lambda>_.
        ret True)))))
       (\<lambda>e. and_then (logger ERROR ''Error inputting CAPTCHA text: {e}'') (\<lambda>_. ret False))"

text \<open>\<^verbatim>\<open>CaptchaSolver.solve\<close>. Line 55 calls \<^verbatim>\<open>_input_captcha_text\<close> as a statement: its
  result is dropped.\<close>

definition solve :: "'img captcha_solver \<Rightarrow> ('img, 'elem) web_env \<Rightarrow> string \<Rightarrow> bool comp" where
  "solve self env captcha_input_id =
     try_except
       (and_then (extract_captcha_text self env) (\<lambda>captcha_text.
        if \<not> truthy captcha_text
        then and_then (logger WARNING ''Failed to extract CAPTCHA text'') (\<lambda>_. ret False)
        else
          and_then (input_captcha_text env (str_of captcha_text) captcha_input_id) (\<lambda>_.
          and_then (logger INFO ''CAPTCHA solved: {captcha_text}'') (\<lambda>_.
          ret True))))
       (\<lambda>e. and_then (logger ERROR ''Error solving CAPTCHA: {e}'') (\<lambda>_. ret False))"

definition default_input_id :: string where
  "default_input_id = ''DWNL$ctl10''"

section \<open>The caller: \<^verbatim>\<open>MercadoPublicoDownloader._download_attachment\<close>\<close>

record 'img downloader =
  ocr :: ocr_processor
  captcha_solver :: "'img captcha_solver"

text \<open>\<^verbatim>\<open>_has_captcha\<close> and \<^verbatim>\<open>_get_latest_download\<close>.\<close>

definition has_captcha :: "('img, 'elem) web_env \<Rightarrow> bool" where
  "has_captcha env = (case find_element env By_XPATH captcha_xpath of Inl e \<Rightarrow> False | Inr el \<Rightarrow> True)"

definition get_latest_download :: "('img, 'elem) web_env \<Rightarrow> string option comp" where
  "get_latest_download env =
     try_except (lift (latest_file env))
       (\<lambda>e. and_then (logger ERROR ''Error getting latest download: {e}'') (\<lambda>_. ret None))"

definition download_button_xpath :: string where
  "download_button_xpath =
     ''//a[contains(@href, '' @ quoted ''DWNL'' @ '')] | //button[contains(text(), ''
       @ quoted ''Descargar'' @ '')]''"

text \<open>Lines 123 to 133: the download button and the file.\<close>

definition click_download :: "('img, 'elem) web_env \<Rightarrow> string option comp" where
  "click_download env =
     and_then (lift (wait_clickable env By_XPATH download_button_xpath)) (\<lambda>download_button.
     and_then (lift (click env download_button)) (\<lambda>_.
     get_latest_download env))"

text \<open>\<^verbatim>\<open>_download_attachment\<close>; \<^verbatim>\<open>time.sleep\<close> has no effect on the result.\<close>

definition download_attachment ::
  "'img downloader \<Rightarrow> ('img, 'elem) web_env \<Rightarrow> string \<Rightarrow> string option comp" where
  "download_attachment self env attachment_url =
     try_except
       (and_then (lift (driver_get env attachment_url)) (\<lambda>_.
        if has_captcha env
        then
          and_then (logger INFO ''CAPTCHA detected, attempting to solve...'') (\<lambda>_.
          and_then (solve (captcha_solver self) env default_input_id) (\<lambda>solved.
          if \<not> solved
          then and_then (logger WARNING ''Failed to solve CAPTCHA'') (\<lambda>_. ret None)
          else click_download env))
        else click_download env))
       (\<lambda>e. and_then (logger ERROR ''Error downloading attachment: {e}'') (\<lambda>_. ret None))"

text \<open>
  The invocations of \<^verbatim>\<open>solve\<close> a log records. Every path through \<^verbatim>\<open>CaptchaSolver.solve\<close>
  ends by writing one of three entries (lines 51, 57 and 61) and writes none of them
  before; no other function writes them.
\<close>

definition solve_closing :: "log_entry \<Rightarrow> bool" where
  "solve_closing entry =
     (entry = (WARNING, ''Failed to extract CAPTCHA text'')
      \<or> entry = (INFO, ''CAPTCHA solved: {captcha_text}'')
      \<or> entry = (ERROR, ''Error solving CAPTCHA: {e}''))"

definition solve_calls :: "log_entry list \<Rightarrow> nat" where
  "solve_calls l = length (filter solve_closing l)"

section \<open>Notions the properties are stated with\<close>

text \<open>The arithmetic mean of a list of integers (meaningful on a non-empty list).\<close>

definition mean :: "int list \<Rightarrow> rat" where
  "mean xs = of_int (sum_list xs) / of_nat (length xs)"

text \<open>
  The tokens the loop keeps, the entry it stores for a token, a token's row key and text,
  and the kept tokens of one key, in recognition order.
\<close>

definition qualifying :: "token list \<Rightarrow> token list" where
  "qualifying tokens = filter (\<lambda>(x, y, w, h, conf, tx). qualifies conf tx) tokens"

definition to_item :: "token \<Rightarrow> item" where
  "to_item = (\<lambda>(x, y, w, h, conf, tx). \<lparr>it_x = x, it_text = tx, it_conf = conf\<rparr>)"

definition tok_key :: "token \<Rightarrow> int" where
  "tok_key = (\<lambda>(x, y, w, h, conf, tx). row_key y)"

definition tok_text :: "token \<Rightarrow> string" where
  "tok_text = (\<lambda>(x, y, w, h, conf, tx). tx)"

definition bucket :: "int \<Rightarrow> token list \<Rightarrow> item list" where
  "bucket k tokens = map to_item (filter (\<lambda>t. tok_key t = k) (qualifying tokens))"

section \<open>Concrete inputs\<close>

text \<open>Six recognised tokens on three lines, one of them blank and one with confidence 0.\<close>

definition demo_tokens :: "token list" where
  "demo_tokens =
     [(30, 100, 5, 5, 90, ''b''), (3, 104, 5, 5, 80, ''a''), (0, 112, 5, 5, 70, ''  ''),
      (7, 112, 5, 5, 0, ''z''), (7, 112, 5, 5, 10, ''c ''), (1, 5, 5, 5, 10, ''top'')]"

text \<open>
  A recognition result of four tokens, and libraries that succeed: images and arrays are
  numbers, a loaded path is image 11, decoded bytes are image 12 (400 rows high, every
  other array 60 rows high with three channels), and resizing adds 100 times the factor.
  Two variants: the OCR engine is not installed, and the conversion to an array fails.
\<close>

definition demo_data :: tess_data where
  "demo_data = \<lparr>d_left = Some [30, 3, 0, 7], d_top = Some [100, 104, 112, 112],
                 d_width = Some [5, 5, 5, 5], d_height = Some [5, 5, 5, 5],
                 d_confidence = Some [90, 85, 0, - 1], d_text = Some [''b'', ''a'', ''z'', '''']\<rparr>"

definition demo_env :: "(nat, nat) ocr_env" where
  "demo_env =
     \<lparr>Image_open_path = (\<lambda>p. if p = ''/tmp/captcha.png'' \<or> p = ''captcha.png'' then Inr 11
                              else Inl (Exn OtherException ''No such file or directory'')),
      Image_open_bytes = (\<lambda>b. if b = ''PNG'' then Inr 12
                               else Inl (Exn OtherException ''cannot identify image file'')),
      b64decode = (\<lambda>s. if s = ''UE5H'' then Inr ''PNG''
                        else if s = ''AAAA'' then Inr [CHR 0x00, CHR 0x00, CHR 0x00]
                        else Inl (Exn ValueError ''Incorrect padding'')),
      astype_uint8 = Inr,
      Image_fromarray = Inr,
      np_array = Inr,
      shape = (\<lambda>a. if a = 12 then [400, 600] else [60, 200, 3]),
      cvtColor_RGB2GRAY = Inr,
      threshold_BINARY = (\<lambda>a t m. Inr a),
      fastNlMeansDenoising = (\<lambda>a h. Inr a),
      resize = (\<lambda>a fx fy i. if i = INTER_CUBIC then Inr (a + nat fx * 100) else Inr a),
      image_to_string = (\<lambda>img lang. Inr ''AB12''),
      image_to_data = (\<lambda>img lang. Inr demo_data)\<rparr>"

definition demo_processor :: ocr_processor where
  "demo_processor = \<lparr>language = ''spa'', enable_preprocessing = True\<rparr>"

definition tesseract_missing :: exn where
  "tesseract_missing = Exn TesseractNotFoundError ''tesseract is not installed or it is not in your PATH''"

definition no_engine_env :: "(nat, nat) ocr_env" where
  "no_engine_env = demo_env\<lparr>image_to_string := (\<lambda>img lang. Inl tesseract_missing),
                             image_to_data := (\<lambda>img lang. Inl tesseract_missing)\<rparr>"

definition no_numpy_env :: "(nat, nat) ocr_env" where
  "no_numpy_env = demo_env\<lparr>np_array := (\<lambda>img. Inl (Exn OtherException ''cannot convert''))\<rparr>"

text \<open>
  A solver whose OCR object is a stub with a fixed answer, a page that shows a CAPTCHA
  image and has no input field (both lookups of the field raise), and a downloader using
  such a solver.
\<close>

definition stub_solver :: "string \<Rightarrow> nat captcha_solver" where
  "stub_solver answer =
     \<lparr>ocr_processor = Duck (\<lambda>img. Inr (Some answer)), base_url = ''http://www.mercadopublico.cl''\<rparr>"

definition demo_page :: "(nat, nat) web_env" where
  "demo_page =
     \<lparr>wait_presence = (\<lambda>b x. Inr 7),
      wait_clickable = (\<lambda>b x. Inr 8),
      find_element = (\<lambda>b x. if b = By_XPATH then Inr 7
                             else Inl (Exn NoSuchElementException ''no such element'')),
      get_attribute = (\<lambda>el a. Inr (Some ''/Captcha.aspx'')),
      clear = (\<lambda>el. Inr ()),
      send_keys = (\<lambda>el keys. Inr ()),
      click = (\<lambda>el. Inr ()),
      driver_get = (\<lambda>url. Inr ()),
      urljoin = (\<lambda>base url. base @ url),
      requests_get = (\<lambda>url. Inr ''PNG''),
      Image_open = (\<lambda>b. Inr 12),
      latest_file = Inr (Some ''downloads/bases.pdf'')\<rparr>"

definition demo_downloader :: "string \<Rightarrow> nat downloader" where
  "demo_downloader answer = \<lparr>ocr = demo_processor, captcha_solver = stub_solver answer\<rparr>"

section \<open>Sequencing lemmas\<close>

lemma and_then_Inr [simp]: "and_then (Inr a, l) f = (fst (f a), l @ snd (f a))"
  by (simp add: and_then_def split: prod.splits)

lemma and_then_Inl [simp]: "and_then (Inl e, l) f = (Inl e, l)"
  by (simp add: and_then_def)

lemma and_then_ret [simp]: "and_then (ret a) f = f a"
  by (simp add: ret_def)

lemma and_then_logger [simp]: "and_then (logger lv m) f = (fst (f ()), (lv, m) # snd (f ()))"
  by (simp add: logger_def)

lemma and_then_lift_Inr [simp]: "and_then (lift (Inr a)) f = f a"
  by (simp add: lift_def)

lemma and_then_lift_Inl [simp]: "and_then (lift (Inl e)) f = (Inl e, [])"
  by (simp add: lift_def)

lemma try_except_Inr [simp]: "try_except (Inr a, l) h = (Inr a, l)"
  by (simp add: try_except_def)

lemma try_except_Inl [simp]: "try_except (Inl e, l) h = (fst (h e), l @ snd (h e))"
  by (simp add: try_except_def split: prod.splits)

lemma fst_ret [simp]: "fst (ret a) = Inr a" and snd_ret [simp]: "snd (ret a) = []"
  by (simp_all add: ret_def)

section \<open>The row key\<close>

lemma floor_tenth: "\<lfloor>(of_int y :: rat) / 10\<rfloor> = y div 10"
  using floor_divide_of_int_eq [of y 10, where ?'a = rat] by simp

lemma frac_tenth: "(of_int y :: rat) / 10 - of_int (y div 10) = of_int (y mod 10) / 10"
proof -
  have "y = 10 * (y div 10) + y mod 10" by simp
  then have "(of_int y :: rat) = 10 * of_int (y div 10) + of_int (y mod 10)"
    by (metis of_int_add of_int_mult of_int_numeral)
  then show ?thesis by (simp add: field_simps)
qed

text \<open>The key in integer arithmetic: round half to even on the last digit.\<close>

lemma row_key_closed:
  "row_key y =
     (if y mod 10 < 5 then 10 * (y div 10)
      else if 5 < y mod 10 then 10 * (y div 10 + 1)
      else if even (y div 10) then 10 * (y div 10) else 10 * (y div 10 + 1))"
proof -
  have a: "((of_int (y mod 10) :: rat) / 10 < 1 / 2) = (y mod 10 < 5)"
    by (auto simp: field_simps)
  have b: "(1 / 2 < (of_int (y mod 10) :: rat) / 10) = (5 < y mod 10)"
    by (auto simp: field_simps)
  show ?thesis
    unfolding row_key_def py_round_def Let_def floor_tenth frac_tenth a b
    by simp
qed

lemma row_key_dvd: "10 dvd row_key y"
  by (simp add: row_key_closed)

lemma row_key_nearest: "\<bar>row_key y - y\<bar> \<le> \<bar>10 * m - y\<bar>"
  unfolding row_key_closed by (simp; presburger)

section \<open>The row dictionary\<close>

lemma rows_get_append:
  "rows_get (rows_append rows k it) k' =
     (if k' = k then rows_get rows k @ [it] else rows_get rows k')"
  by (induction rows k it rule: rows_append.induct) (auto simp: rows_get_def)

lemma keys_append:
  "map fst (rows_append rows k it) =
     (if k \<in> set (map fst rows) then map fst rows else map fst rows @ [k])"
  by (induction rows k it rule: rows_append.induct) auto

lemma rows_get_group:
  "rows_get (group_rows ts rows) k = rows_get rows k @ bucket k ts"
proof (induction ts rows rule: group_rows.induct)
  case (1 rows)
  then show ?case by (simp add: bucket_def qualifying_def)
next
  case (2 x y w h conf tx rest rows)
  then show ?case
    by (auto simp: rows_get_append bucket_def qualifying_def to_item_def tok_key_def)
qed

lemma keys_group_set:
  "set (map fst (group_rows ts rows)) = set (map fst rows) \<union> tok_key ` set (qualifying ts)"
proof (induction ts rows rule: group_rows.induct)
  case (1 rows)
  then show ?case by (simp add: qualifying_def)
next
  case (2 x y w h conf tx rest rows)
  then show ?case
    by (auto simp: keys_append qualifying_def tok_key_def simp del: set_map)
qed

lemma keys_group_distinct:
  "distinct (map fst rows) \<Longrightarrow> distinct (map fst (group_rows ts rows))"
proof (induction ts rows rule: group_rows.induct)
  case (1 rows)
  then show ?case by simp
next
  case (2 x y w h conf tx rest rows)
  then show ?case by (auto simp: keys_append)
qed

lemma sorted_keys_group:
  "sort (map fst (group_rows ts [])) = sort (remdups (map tok_key (qualifying ts)))"
proof (rule sorted_distinct_set_unique)
  show "distinct (sort (map fst (group_rows ts [])))"
    using keys_group_distinct [of "[]" ts] by simp
  show "set (sort (map fst (group_rows ts []))) = set (sort (remdups (map tok_key (qualifying ts))))"
    using keys_group_set [of ts "[]"] by simp
qed simp_all

text \<open>The table in closed form: one row per key of a kept token, keys ascending, each
  row the kept tokens of that key, stably sorted by \<open>x\<close>.\<close>

lemma reconstruct_table_closed:
  "reconstruct_table ts =
     map (\<lambda>k. map it_text (sort_key it_x (bucket k ts)))
       (sort (remdups (map tok_key (qualifying ts))))"
  using rows_get_group [of ts "[]"]
  by (simp add: reconstruct_table_def sorted_rows_def sorted_items_def sorted_keys_group
      rows_get_def comp_def)

lemma sum_list_delta:
  "distinct ks \<Longrightarrow> a \<in> set ks \<Longrightarrow> (\<Sum>k\<leftarrow>ks. if a = k then {#t#} else {#}) = {#t#}"
proof (induction ks)
  case Nil
  then show ?case by simp
next
  case (Cons k ks)
  show ?case
  proof (cases "a = k")
    case True
    with Cons.prems have "a \<notin> set ks" by simp
    then have "(\<Sum>k\<leftarrow>ks. if a = k then {#t#} else {#}) = {#}"
      by (induction ks) auto
    with True show ?thesis by simp
  next
    case False
    with Cons show ?thesis by simp
  qed
qed

lemma sum_buckets:
  "distinct ks \<Longrightarrow> tok_key ` set q \<subseteq> set ks \<Longrightarrow>
   (\<Sum>k\<leftarrow>ks. mset (filter (\<lambda>t. tok_key t = k) q)) = mset q"
proof (induction q)
  case Nil
  then show ?case by (induction ks) auto
next
  case (Cons t q)
  have "(\<Sum>k\<leftarrow>ks. mset (filter (\<lambda>t. tok_key t = k) (t # q))) =
        (\<Sum>k\<leftarrow>ks. (if tok_key t = k then {#t#} else {#}) + mset (filter (\<lambda>t. tok_key t = k) q))"
    by (rule arg_cong [where f = sum_list]) auto
  also have "\<dots> = (\<Sum>k\<leftarrow>ks. if tok_key t = k then {#t#} else {#})
                  + (\<Sum>k\<leftarrow>ks. mset (filter (\<lambda>t. tok_key t = k) q))"
    by (simp add: sum_list_addf)
  also have "\<dots> = {#t#} + mset q"
    using Cons by (simp add: sum_list_delta)
  finally show ?case by simp
qed

lemma image_mset_sum_list:
  "image_mset f (\<Sum>k\<leftarrow>ks. g k) = (\<Sum>k\<leftarrow>ks. image_mset f (g k))"
  by (induction ks) auto

lemma it_text_to_item: "it_text (to_item t) = tok_text t"
  by (simp add: to_item_def tok_text_def split: prod.splits)

lemma mset_table:
  "mset (concat (reconstruct_table ts)) = mset (map tok_text (qualifying ts))"
proof -
  let ?ks = "sort (remdups (map tok_key (qualifying ts)))"
  have d: "distinct ?ks" and s: "tok_key ` set (qualifying ts) \<subseteq> set ?ks" by simp_all
  have "mset (concat (reconstruct_table ts)) =
        (\<Sum>k\<leftarrow>?ks. image_mset tok_text (mset (filter (\<lambda>t. tok_key t = k) (qualifying ts))))"
    by (simp add: reconstruct_table_closed mset_concat comp_def bucket_def multiset.map_comp
        it_text_to_item)
  also have "\<dots> = image_mset tok_text (\<Sum>k\<leftarrow>?ks. mset (filter (\<lambda>t. tok_key t = k) (qualifying ts)))"
    by (simp only: image_mset_sum_list)
  also have "\<dots> = image_mset tok_text (mset (qualifying ts))"
    using sum_buckets [OF d s] by simp
  finally show ?thesis by simp
qed

lemma keys_strictly_ascending:
  "sorted (map fst (sorted_items (group_rows ts [])))
   \<and> distinct (map fst (sorted_items (group_rows ts [])))"
  using keys_group_distinct [of "[]" ts] by (simp add: sorted_items_def comp_def)

lemma sorted_items_bucket:
  assumes "(k, its) \<in> set (sorted_items (group_rows ts []))"
  shows "its = sort_key it_x (bucket k ts) \<and> its \<noteq> []"
proof -
  from assms have k: "k \<in> set (map fst (group_rows ts []))"
    and its: "its = sort_key it_x (rows_get (group_rows ts []) k)"
    by (auto simp: sorted_items_def)
  from k keys_group_set [of ts "[]"] obtain t where "t \<in> set (qualifying ts)" "tok_key t = k"
    by auto
  then have "bucket k ts \<noteq> []"
    by (auto simp: bucket_def filter_empty_conv)
  then have "length (sort_key it_x (bucket k ts)) \<noteq> 0"
    by simp
  then have "sort_key it_x (bucket k ts) \<noteq> []"
    by (simp del: length_sort)
  moreover have "its = sort_key it_x (bucket k ts)"
    using its rows_get_group [of ts "[]" k] by (simp add: rows_get_def)
  ultimately show ?thesis
    by simp
qed

lemma demo_keys: "row_key 100 = 100" "row_key 104 = 100" "row_key 112 = 110" "row_key 5 = 0"
  by (simp_all add: row_key_closed)

lemma demo_table: "reconstruct_table demo_tokens = [[''top''], [''a'', ''b''], [''c '']]"
  by (simp add: demo_tokens_def reconstruct_table_def sorted_rows_def sorted_items_def
      qualifies_def py_strip_def py_isspace_def demo_keys rows_get_def)

section \<open>Row buckets\<close>

text \<open>
  C5. The loop of \<^verbatim>\<open>extract_table_data\<close> puts a kept token with vertical coordinate
  \<open>y\<close> into the bucket keyed \<open>round(y / 10) * 10\<close>: the bucket of a key holds exactly the
  kept tokens with that key, in recognition order. The key is a multiple of 10 and no
  multiple of 10 is nearer to \<open>y\<close>. The coordinates 100 and 104 have the same key, 100 and
  112 have different keys.
\<close>

theorem row_bucket_is_nearest_multiple_of_ten:
  "rows_get (group_rows tokens []) k = bucket k tokens
   \<and> tok_key (x, y, w, h, conf, tx) = row_key y
   \<and> row_key y = py_round (of_int y / 10) * 10
   \<and> 10 dvd row_key y
   \<and> (\<forall>m. \<bar>row_key y - y\<bar> \<le> \<bar>10 * m - y\<bar>)
   \<and> row_key 100 = row_key 104
   \<and> row_key 100 \<noteq> row_key 112"
proof -
  have "rows_get (group_rows tokens []) k = bucket k tokens"
    using rows_get_group [of tokens "[]" k] by (simp add: rows_get_def)
  moreover have "row_key 100 = row_key 104" "row_key 100 \<noteq> row_key 112"
    by (simp_all add: row_key_closed)
  ultimately show ?thesis
    using row_key_dvd [of y] row_key_nearest [of y]
    by (simp add: tok_key_def row_key_def)
qed

section \<open>Outcomes of text extraction\<close>

lemma lift_simps [simp]: "fst (lift r) = r" "snd (lift r) = []"
  by (simp_all add: lift_def)

lemma preprocess_image_cases:
  "preprocess_image env img =
     (case preprocess_steps env img of
        Inl e \<Rightarrow> (Inr img, [(WARNING, ''Error preprocessing image: {e}. Using original image.'')])
      | Inr out \<Rightarrow> (Inr out, []))"
  by (simp add: preprocess_image_def lift_def split: sum.splits)

lemma preprocess_image_returns: "\<exists>out l. preprocess_image env img = (Inr out, l)"
  by (simp add: preprocess_image_cases split: sum.splits)

lemma maybe_preprocess_returns: "\<exists>out l. maybe_preprocess self env img = (Inr out, l)"
  using preprocess_image_returns [of env img] by (simp add: maybe_preprocess_def ret_def)

lemma extract_text_load_failed:
  "load_image env src = Inl e \<Longrightarrow>
   extract_text_from_image self env src =
     (Inr (failure_result self e), [(ERROR, ''Error extracting text from image: {e}'')])"
  by (simp add: extract_text_from_image_def failure_result_def)

lemma extract_text_string_failed:
  "load_image env src = Inr img0 \<Longrightarrow> maybe_preprocess self env img0 = (Inr img, l) \<Longrightarrow>
   image_to_string env img (language self) = Inl e \<Longrightarrow>
   extract_text_from_image self env src =
     (Inr (failure_result self e), l @ [(ERROR, ''Error extracting text from image: {e}'')])"
  by (simp add: extract_text_from_image_def failure_result_def)

lemma extract_text_data_failed:
  "load_image env src = Inr img0 \<Longrightarrow> maybe_preprocess self env img0 = (Inr img, l) \<Longrightarrow>
   image_to_string env img (language self) = Inr tx \<Longrightarrow>
   image_to_data env img (language self) = Inl e \<Longrightarrow>
   extract_text_from_image self env src =
     (Inr (failure_result self e), l @ [(ERROR, ''Error extracting text from image: {e}'')])"
  by (simp add: extract_text_from_image_def failure_result_def)

lemma extract_text_key_missing:
  "load_image env src = Inr img0 \<Longrightarrow> maybe_preprocess self env img0 = (Inr img, l) \<Longrightarrow>
   image_to_string env img (language self) = Inr tx \<Longrightarrow>
   image_to_data env img (language self) = Inr data \<Longrightarrow> d_confidence data = None \<Longrightarrow>
   extract_text_from_image self env src =
     (Inr (failure_result self (Exn KeyError (quoted ''confidence''))),
      l @ [(ERROR, ''Error extracting text from image: {e}'')])"
  by (simp add: extract_text_from_image_def failure_result_def getitem_def)

lemma extract_text_ok:
  "load_image env src = Inr img0 \<Longrightarrow> maybe_preprocess self env img0 = (Inr img, l) \<Longrightarrow>
   image_to_string env img (language self) = Inr tx \<Longrightarrow>
   image_to_data env img (language self) = Inr data \<Longrightarrow> d_confidence data = Some confs \<Longrightarrow>
   extract_text_from_image self env src =
     (Inr \<lparr>r_text = py_strip tx, r_confidence = avg_confidence confs,
           r_word_count = length (py_split tx), r_language = language self,
           r_data = data, r_success = True, r_error = None\<rparr>,
      l @ [(INFO, ''Extracted text from image with {len(text)} characters, confidence: {avg_confidence:.2f}%'')])"
  by (simp add: extract_text_from_image_def getitem_def)

text \<open>Every run ends in one of the five ways above.\<close>

lemma extract_text_outcomes:
  "(\<exists>e l. extract_text_from_image self env src =
       (Inr (failure_result self e), l @ [(ERROR, ''Error extracting text from image: {e}'')]))
   \<or> (\<exists>tx data confs l. d_confidence data = Some confs \<and>
        extract_text_from_image self env src =
          (Inr \<lparr>r_text = py_strip tx, r_confidence = avg_confidence confs,
                r_word_count = length (py_split tx), r_language = language self,
                r_data = data, r_success = True, r_error = None\<rparr>,
           l @ [(INFO, ''Extracted text from image with {len(text)} characters, confidence: {avg_confidence:.2f}%'')]))"
proof (cases "load_image env src")
  case (Inl e)
  from extract_text_load_failed [OF this, of self]
  have "extract_text_from_image self env src =
     (Inr (failure_result self e), [] @ [(ERROR, ''Error extracting text from image: {e}'')])"
    by simp
  then show ?thesis by blast
next
  case (Inr img0)
  obtain img l where p: "maybe_preprocess self env img0 = (Inr img, l)"
    using maybe_preprocess_returns [of self env img0] by auto
  show ?thesis
  proof (cases "image_to_string env img (language self)")
    case (Inl e)
    from extract_text_string_failed [OF Inr p this] show ?thesis by blast
  next
    case s: (Inr tx)
    show ?thesis
    proof (cases "image_to_data env img (language self)")
      case (Inl e)
      from extract_text_data_failed [OF Inr p s this] show ?thesis by blast
    next
      case d: (Inr data)
      show ?thesis
      proof (cases "d_confidence data")
        case None
        from extract_text_key_missing [OF Inr p s d this] show ?thesis by blast
      next
        case (Some confs)
        from extract_text_ok [OF Inr p s d this] Some show ?thesis by blast
      qed
    qed
  qed
qed


lemma sum_list_le_bound: "\<forall>x\<in>set xs. x \<le> (b::int) \<Longrightarrow> sum_list xs \<le> b * int (length xs)"
  by (induction xs) (auto simp: algebra_simps)

lemma sum_list_pos_nonneg: "\<forall>x\<in>set xs. (0::int) < x \<Longrightarrow> 0 \<le> sum_list xs"
  by (induction xs) auto

lemma avg_confidence_nonneg: "0 \<le> avg_confidence confs"
proof -
  have "0 \<le> sum_list (filter (\<lambda>conf. 0 < conf) confs)"
    by (rule sum_list_pos_nonneg) simp
  then show ?thesis
    by (simp add: avg_confidence_def Let_def)
qed

lemma avg_confidence_le:
  assumes "\<forall>c\<in>set confs. c \<le> 100"
  shows "avg_confidence confs \<le> 100"
proof (cases "filter (\<lambda>conf. 0 < conf) confs = []")
  case True
  then show ?thesis by (simp add: avg_confidence_def)
next
  case False
  let ?p = "filter (\<lambda>conf. 0 < conf) confs"
  from assms have "sum_list ?p \<le> 100 * int (length ?p)"
    by (intro sum_list_le_bound) simp
  then have "(of_int (sum_list ?p) :: rat) \<le> of_int (100 * int (length ?p))"
    by (simp only: of_int_le_iff)
  then have "(of_int (sum_list ?p) :: rat) \<le> 100 * of_nat (length ?p)"
    by simp
  moreover from False have "(0::rat) < of_nat (length ?p)" by simp
  ultimately have "(of_int (sum_list ?p) :: rat) / of_nat (length ?p) \<le> 100"
    by (simp add: pos_divide_le_eq)
  with False show ?thesis by (simp add: avg_confidence_def Let_def)
qed

lemma extract_text_success_confidence:
  assumes "fst (extract_text_from_image self env src) = Inr r"
  shows "(r_success r \<longrightarrow> (\<exists>cs. d_confidence (r_data r) = Some cs \<and> r_confidence r = avg_confidence cs))
         \<and> (\<not> r_success r \<longrightarrow> r_confidence r = 0)"
  using extract_text_outcomes [of self env src] assms
  by (auto simp: failure_result_def)

lemma demo_preprocess: "preprocess_image demo_env 5 = (Inr 205, [])"
  by (simp add: preprocess_image_cases preprocess_steps_def denoised_def to_gray_def upscale_def
      demo_env_def)

lemma demo_run:
  "extract_text_from_image demo_processor demo_env (PilImage 5) =
     (Inr \<lparr>r_text = ''AB12'', r_confidence = 175 / 2, r_word_count = 1, r_language = ''spa'',
           r_data = demo_data, r_success = True, r_error = None\<rparr>,
      [(INFO, ''Extracted text from image with {len(text)} characters, confidence: {avg_confidence:.2f}%'')])"
proof -
  have l: "load_image demo_env (PilImage 5) = Inr 5" by (simp add: load_image_def)
  have p: "maybe_preprocess demo_processor demo_env 5 = (Inr 205, [])"
    by (simp add: maybe_preprocess_def demo_processor_def demo_preprocess)
  have s: "image_to_string demo_env 205 (language demo_processor) = Inr ''AB12''"
    by (simp add: demo_env_def)
  have d: "image_to_data demo_env 205 (language demo_processor) = Inr demo_data"
    by (simp add: demo_env_def)
  have c: "d_confidence demo_data = Some [90, 85, 0, - 1]" by (simp add: demo_data_def)
  have a: "avg_confidence [90, 85, 0, - 1] = 175 / 2" by (simp add: avg_confidence_def)
  have t: "py_strip ''AB12'' = ''AB12''" "py_split ''AB12'' = [''AB12'']"
    by (simp_all add: py_strip_def py_split_def py_isspace_def)
  show ?thesis
    using extract_text_ok [OF l p s d c] by (simp add: a t demo_processor_def)
qed

section \<open>The confidence score\<close>

text \<open>
  C1. The score \<^verbatim>\<open>avg_confidence\<close> of lines 61 and 62 is the arithmetic mean of the
  confidences strictly above 0 when there is one, and 0 when there is none; it is never
  negative, and it is at most 100 when every confidence is (the range of a token's
  confidence). The score is exact here, where Python rounds the quotient to a float. A
  successful result of \<^verbatim>\<open>extract_text_from_image\<close> carries this score of its token
  data, a failed one carries 0.
\<close>

theorem score_is_mean_of_positive_confidences:
  "((\<exists>c\<in>set confs. 0 < c) \<longrightarrow> avg_confidence confs = mean (filter (\<lambda>c. 0 < c) confs))
   \<and> ((\<forall>c\<in>set confs. c \<le> 0) \<longrightarrow> avg_confidence confs = 0)
   \<and> 0 \<le> avg_confidence confs
   \<and> ((\<forall>c\<in>set confs. c \<le> 100) \<longrightarrow> avg_confidence confs \<le> 100)
   \<and> (\<forall>r. fst (extract_text_from_image self env src) = Inr r \<and> r_success r \<longrightarrow>
         (\<exists>cs. d_confidence (r_data r) = Some cs \<and> r_confidence r = avg_confidence cs))
   \<and> (\<forall>r. fst (extract_text_from_image self env src) = Inr r \<and> \<not> r_success r \<longrightarrow>
         r_confidence r = 0)"
proof -
  have a: "(\<exists>c\<in>set confs. 0 < c) \<longrightarrow> avg_confidence confs = mean (filter (\<lambda>c. 0 < c) confs)"
    by (auto simp: avg_confidence_def mean_def Let_def filter_empty_conv)
  have b: "(\<forall>c\<in>set confs. c \<le> 0) \<longrightarrow> avg_confidence confs = 0"
  proof
    assume "\<forall>c\<in>set confs. c \<le> 0"
    then have "filter (\<lambda>conf. 0 < conf) confs = []"
      by (auto simp: filter_empty_conv)
    then show "avg_confidence confs = 0" by (simp add: avg_confidence_def)
  qed
  show ?thesis
    using a b avg_confidence_nonneg [of confs] avg_confidence_le [of confs]
      extract_text_success_confidence [of self env src]
    by blast
qed

theorem score_is_mean_of_positive_confidences_witness:
  "avg_confidence [90, 85, 0, - 1] = mean [90, 85]
   \<and> mean [90, 85] = 175 / 2
   \<and> avg_confidence [0, - 1] = 0
   \<and> avg_confidence [90, 85, 0, - 1] \<le> 100
   \<and> fst (extract_text_from_image demo_processor demo_env (PilImage 5)) =
       Inr \<lparr>r_text = ''AB12'', r_confidence = avg_confidence [90, 85, 0, - 1], r_word_count = 1,
            r_language = ''spa'', r_data = demo_data, r_success = True, r_error = None\<rparr>"
proof -
  note t = score_is_mean_of_positive_confidences
    [of "[90, 85, 0, - 1]" demo_processor demo_env "PilImage 5"]
  note z = score_is_mean_of_positive_confidences
    [of "[0, - 1]" demo_processor demo_env "PilImage 5"]
  have 1: "avg_confidence [90, 85, 0, - 1] = mean [90, 85]" using t by simp
  have 2: "mean [90, 85] = 175 / 2" by (simp add: mean_def)
  have 3: "avg_confidence [0, - 1] = 0" using z by simp
  have 4: "avg_confidence [90, 85, 0, - 1] \<le> 100" using t by simp
  from 1 2 3 4 demo_run show ?thesis by simp
qed

section \<open>An OCR engine that cannot be reached\<close>

text \<open>
  C3, as stated, fails. With the engine not installed, both pytesseract calls raise
  \<^verbatim>\<open>TesseractNotFoundError\<close>; \<^verbatim>\<open>extract_text_from_image\<close> does not raise it to its
  caller: the \<^verbatim>\<open>except Exception\<close> of line 74 turns it into an ordinary failed result.
\<close>

theorem engine_missing_is_recovered:
  "fst (extract_text_from_image demo_processor no_engine_env (PilImage 5))
     \<noteq> Inl tesseract_missing
   \<and> extract_text_from_image demo_processor no_engine_env (PilImage 5) =
       (Inr \<lparr>r_text = [], r_confidence = 0, r_word_count = 0, r_language = ''spa'',
             r_data = empty_dict, r_success = False,
             r_error = Some ''tesseract is not installed or it is not in your PATH''\<rparr>,
        [(ERROR, ''Error extracting text from image: {e}'')])"
proof -
  have l: "load_image no_engine_env (PilImage 5) = Inr 5" by (simp add: load_image_def)
  have p: "maybe_preprocess demo_processor no_engine_env 5 = (Inr 205, [])"
    by (simp add: maybe_preprocess_def demo_processor_def preprocess_image_cases
        preprocess_steps_def denoised_def to_gray_def upscale_def no_engine_env_def demo_env_def)
  have s: "image_to_string no_engine_env 205 (language demo_processor) = Inl tesseract_missing"
    by (simp add: no_engine_env_def)
  show ?thesis
    using extract_text_string_failed [OF l p s]
    by (simp add: failure_result_def tesseract_missing_def demo_processor_def)
qed

text \<open>
  C3, amended. \<^verbatim>\<open>extract_text_from_image\<close> never raises. When the image was loaded and
  (optionally) preprocessed and a call of the OCR engine raises \<open>e\<close>, it logs an error
  and returns the failed result: empty text, confidence 0, word count 0, empty data,
  \<^verbatim>\<open>success = False\<close> and \<^verbatim>\<open>error = str(e)\<close>.
\<close>

theorem engine_failure_returned_as_result:
  "(\<exists>r l. extract_text_from_image self env src = (Inr r, l))
   \<and> (\<forall>img0 img l e.
        load_image env src = Inr img0 \<and> maybe_preprocess self env img0 = (Inr img, l)
        \<and> (image_to_string env img (language self) = Inl e
            \<or> (\<exists>tx. image_to_string env img (language self) = Inr tx)
               \<and> image_to_data env img (language self) = Inl e)
        \<longrightarrow> extract_text_from_image self env src =
              (Inr \<lparr>r_text = [], r_confidence = 0, r_word_count = 0,
                    r_language = language self, r_data = empty_dict, r_success = False,
                    r_error = Some (str_exn e)\<rparr>,
               l @ [(ERROR, ''Error extracting text from image: {e}'')]))"
proof -
  have "\<exists>r l. extract_text_from_image self env src = (Inr r, l)"
    using extract_text_outcomes [of self env src] by blast
  then show ?thesis
    using extract_text_string_failed [of env src _ self] extract_text_data_failed [of env src _ self]
    by (auto simp: failure_result_def)
qed

theorem engine_failure_returned_as_result_witness:
  "load_image no_engine_env (PilImage 5) = Inr 5
   \<and> maybe_preprocess demo_processor no_engine_env 5 = (Inr 205, [])
   \<and> image_to_string no_engine_env 205 (language demo_processor) = Inl tesseract_missing
   \<and> extract_text_from_image demo_processor no_engine_env (PilImage 5) =
       (Inr \<lparr>r_text = [], r_confidence = 0, r_word_count = 0,
             r_language = language demo_processor, r_data = empty_dict, r_success = False,
             r_error = Some (str_exn tesseract_missing)\<rparr>,
        [] @ [(ERROR, ''Error extracting text from image: {e}'')])"
proof -
  have l: "load_image no_engine_env (PilImage 5) = Inr 5" by (simp add: load_image_def)
  have p: "maybe_preprocess demo_processor no_engine_env 5 = (Inr 205, [])"
    by (simp add: maybe_preprocess_def demo_processor_def preprocess_image_cases
        preprocess_steps_def denoised_def to_gray_def upscale_def no_engine_env_def demo_env_def)
  have s: "image_to_string no_engine_env 205 (language demo_processor) = Inl tesseract_missing"
    by (simp add: no_engine_env_def)
  from engine_failure_returned_as_result [of demo_processor no_engine_env "PilImage 5"] l p s
  have "extract_text_from_image demo_processor no_engine_env (PilImage 5) =
       (Inr \<lparr>r_text = [], r_confidence = 0, r_word_count = 0,
             r_language = language demo_processor, r_data = empty_dict, r_success = False,
             r_error = Some (str_exn tesseract_missing)\<rparr>,
        [] @ [(ERROR, ''Error extracting text from image: {e}'')])"
    by blast
  with l p s show ?thesis by blast
qed

section \<open>Preprocessing falls back to the original image\<close>

lemma fst_try_except:
  "fst (try_except m h) = (case fst m of Inl e \<Rightarrow> fst (h e) | Inr a \<Rightarrow> Inr a)"
  by (cases m) (simp add: try_except_def split: sum.splits prod.splits)

lemma extract_text_without_preprocessing:
  "load_image env src = Inr img \<Longrightarrow> preprocess_steps env img = Inl e \<Longrightarrow>
   fst (extract_text_from_image self env src)
     = fst (extract_text_from_image (self\<lparr>enable_preprocessing := False\<rparr>) env src)"
  by (simp add: extract_text_from_image_def maybe_preprocess_def preprocess_image_cases
      fst_try_except failure_result_def)

lemma step_failures_reach_handler:
  "np_array env img = Inl e \<Longrightarrow> preprocess_steps env img = Inl e"
  "np_array env img = Inr a \<Longrightarrow> to_gray env a = Inl e \<Longrightarrow> preprocess_steps env img = Inl e"
  "np_array env img = Inr a \<Longrightarrow> to_gray env a = Inr g \<Longrightarrow>
     threshold_BINARY env g 150 255 = Inl e \<Longrightarrow> preprocess_steps env img = Inl e"
  "np_array env img = Inr a \<Longrightarrow> to_gray env a = Inr g \<Longrightarrow>
     threshold_BINARY env g 150 255 = Inr b \<Longrightarrow> fastNlMeansDenoising env b 10 = Inl e \<Longrightarrow>
     preprocess_steps env img = Inl e"
  "denoised env img = Inr d \<Longrightarrow> upscale env d = Inl e \<Longrightarrow> preprocess_steps env img = Inl e"
  "denoised env img = Inr d \<Longrightarrow> upscale env d = Inr u \<Longrightarrow> Image_fromarray env u = Inl e \<Longrightarrow>
     preprocess_steps env img = Inl e"
  by (simp_all add: preprocess_steps_def denoised_def)

text \<open>
  C7. When a step of \<^verbatim>\<open>_preprocess_image\<close> raises (the \<^verbatim>\<open>try\<close> block ends with an
  exception; \<open>step_failures_reach_handler\<close> lists the steps), the function returns the
  image it was given and logs one warning. It returns a value on every input, never an
  exception. The extraction goes on with the original image: its result is the one of a
  processor with preprocessing switched off.
\<close>

theorem preprocess_total_fallback:
  "(\<forall>e. preprocess_steps env img = Inl e \<longrightarrow>
        preprocess_image env img =
          (Inr img, [(WARNING, ''Error preprocessing image: {e}. Using original image.'')]))
   \<and> (\<exists>out l. preprocess_image env img = (Inr out, l))
   \<and> (\<forall>e. load_image env src = Inr img \<and> preprocess_steps env img = Inl e \<longrightarrow>
        fst (extract_text_from_image self env src)
          = fst (extract_text_from_image (self\<lparr>enable_preprocessing := False\<rparr>) env src))"
  using preprocess_image_returns [of env img] extract_text_without_preprocessing [of env src img _ self]
  by (simp add: preprocess_image_cases)

lemma demo_no_numpy_steps:
  "preprocess_steps no_numpy_env 5 = Inl (Exn OtherException ''cannot convert'')"
  by (simp add: preprocess_steps_def denoised_def no_numpy_env_def)

theorem preprocess_total_fallback_witness:
  "preprocess_steps no_numpy_env 5 = Inl (Exn OtherException ''cannot convert'')
   \<and> load_image no_numpy_env (PilImage 5) = Inr 5
   \<and> preprocess_image no_numpy_env 5 =
       (Inr 5, [(WARNING, ''Error preprocessing image: {e}. Using original image.'')])
   \<and> fst (extract_text_from_image demo_processor no_numpy_env (PilImage 5))
       = fst (extract_text_from_image (demo_processor\<lparr>enable_preprocessing := False\<rparr>)
               no_numpy_env (PilImage 5))"
proof -
  have l: "load_image no_numpy_env (PilImage 5) = Inr 5" by (simp add: load_image_def)
  note t = preprocess_total_fallback [of no_numpy_env 5 "PilImage 5" demo_processor]
  from t demo_no_numpy_steps have a: "preprocess_image no_numpy_env 5 =
       (Inr 5, [(WARNING, ''Error preprocessing image: {e}. Using original image.'')])"
    by blast
  from t demo_no_numpy_steps l
  have b: "fst (extract_text_from_image demo_processor no_numpy_env (PilImage 5))
       = fst (extract_text_from_image (demo_processor\<lparr>enable_preprocessing := False\<rparr>)
               no_numpy_env (PilImage 5))"
    by blast
  from demo_no_numpy_steps l a b show ?thesis by blast
qed

section \<open>Loading an image from text\<close>

text \<open>
  C8. For a text argument of \<^verbatim>\<open>_load_image\<close>: when the text begins with \<^verbatim>\<open>/\<close> or
  \<^verbatim>\<open>.\<close> it is opened as a file path. Otherwise it is base64-decoded and the bytes are
  opened as an image, and that image is the result; when the decoding or the opening of
  the bytes fails, the text is opened as a file path.
\<close>

theorem text_source_resolution:
  "(startswith_path_prefix s \<longrightarrow> load_image env (Str s) = Image_open_path env s)
   \<and> (\<forall>b img. \<not> startswith_path_prefix s \<and> b64decode env s = Inr b
          \<and> Image_open_bytes env b = Inr img \<longrightarrow> load_image env (Str s) = Inr img)
   \<and> (\<forall>e. \<not> startswith_path_prefix s \<and> b64decode env s = Inl e \<longrightarrow>
          load_image env (Str s) = Image_open_path env s)
   \<and> (\<forall>b e. \<not> startswith_path_prefix s \<and> b64decode env s = Inr b
          \<and> Image_open_bytes env b = Inl e \<longrightarrow> load_image env (Str s) = Image_open_path env s)
   \<and> startswith_path_prefix s = (\<exists>c rest. s = c # rest \<and> (c = CHR ''/'' \<or> c = CHR ''.''))"
  by (auto simp: load_image_def startswith_path_prefix_def split: list.splits)

theorem text_source_resolution_witness:
  "startswith_path_prefix ''/tmp/captcha.png''
   \<and> load_image demo_env (Str ''/tmp/captcha.png'') = Inr 11
   \<and> \<not> startswith_path_prefix ''UE5H'' \<and> b64decode demo_env ''UE5H'' = Inr ''PNG''
   \<and> Image_open_bytes demo_env ''PNG'' = Inr 12
   \<and> load_image demo_env (Str ''UE5H'') = Inr 12
   \<and> \<not> startswith_path_prefix ''captcha.png''
   \<and> b64decode demo_env ''captcha.png'' = Inl (Exn ValueError ''Incorrect padding'')
   \<and> load_image demo_env (Str ''captcha.png'') = Inr 11
   \<and> \<not> startswith_path_prefix ''AAAA''
   \<and> b64decode demo_env ''AAAA'' = Inr [CHR 0x00, CHR 0x00, CHR 0x00]
   \<and> Image_open_bytes demo_env [CHR 0x00, CHR 0x00, CHR 0x00]
        = Inl (Exn OtherException ''cannot identify image file'')
   \<and> load_image demo_env (Str ''AAAA'') = Inl (Exn OtherException ''No such file or directory'')"
proof -
  have p1: "startswith_path_prefix ''/tmp/captcha.png''"
    and p2: "\<not> startswith_path_prefix ''UE5H''"
    and p3: "\<not> startswith_path_prefix ''captcha.png''"
    and p4: "\<not> startswith_path_prefix ''AAAA''"
    by (simp_all add: startswith_path_prefix_def)
  have d2: "b64decode demo_env ''UE5H'' = Inr ''PNG''"
    and o2: "Image_open_bytes demo_env ''PNG'' = Inr 12"
    and d3: "b64decode demo_env ''captcha.png'' = Inl (Exn ValueError ''Incorrect padding'')"
    and d4: "b64decode demo_env ''AAAA'' = Inr [CHR 0x00, CHR 0x00, CHR 0x00]"
    and o4: "Image_open_bytes demo_env [CHR 0x00, CHR 0x00, CHR 0x00]
        = Inl (Exn OtherException ''cannot identify image file'')"
    by (simp_all add: demo_env_def)
  have f1: "Image_open_path demo_env ''/tmp/captcha.png'' = Inr 11"
    and f3: "Image_open_path demo_env ''captcha.png'' = Inr 11"
    and f4: "Image_open_path demo_env ''AAAA'' = Inl (Exn OtherException ''No such file or directory'')"
    by (simp_all add: demo_env_def)
  have 1: "load_image demo_env (Str ''/tmp/captcha.png'') = Inr 11"
    using text_source_resolution [of "''/tmp/captcha.png''" demo_env] by (simp add: p1 f1)
  have 2: "load_image demo_env (Str ''UE5H'') = Inr 12"
    using text_source_resolution [of "''UE5H''" demo_env] by (simp add: p2 d2 o2)
  have 3: "load_image demo_env (Str ''captcha.png'') = Inr 11"
    using text_source_resolution [of "''captcha.png''" demo_env] by (simp add: p3 d3 f3)
  have 4: "load_image demo_env (Str ''AAAA'') = Inl (Exn OtherException ''No such file or directory'')"
    using text_source_resolution [of "''AAAA''" demo_env] by (simp add: p4 d4 o4 f4)
  show ?thesis
    by (simp only: p1 p2 p3 p4 d2 o2 d3 d4 o4 1 2 3 4 simp_thms)
qed

section \<open>Upscaling small images\<close>

lemma denoised_iff:
  "denoised env img = Inr d \<longleftrightarrow>
     (\<exists>a g b. np_array env img = Inr a \<and> to_gray env a = Inr g
        \<and> threshold_BINARY env g 150 255 = Inr b \<and> fastNlMeansDenoising env b 10 = Inr d)"
  by (auto simp: denoised_def split: sum.splits)

text \<open>
  C9. Let \<open>d\<close> be the array after conversion to an array, grayscale conversion (for a
  three-dimensional array), thresholding at 150 and denoising with strength 10, and \<open>h\<close>
  its number of rows. When \<open>h < 300\<close> the preprocessing resizes \<open>d\<close> with both factors 2
  and cubic interpolation and returns that as an image; when \<open>300 \<le> h\<close> it returns \<open>d\<close>
  as an image, not resized.
\<close>

theorem upscale_below_300_rows:
  "(\<forall>d h rest. denoised env img = Inr d \<and> shape env d = h # rest \<and> h < 300 \<longrightarrow>
       preprocess_steps env img =
         (case resize env d 2 2 INTER_CUBIC of Inl e \<Rightarrow> Inl e | Inr big \<Rightarrow> Image_fromarray env big))
   \<and> (\<forall>d h rest. denoised env img = Inr d \<and> shape env d = h # rest \<and> 300 \<le> h \<longrightarrow>
       preprocess_steps env img = Image_fromarray env d)
   \<and> (\<forall>d h rest big out. denoised env img = Inr d \<and> shape env d = h # rest \<and> h < 300
        \<and> resize env d 2 2 INTER_CUBIC = Inr big \<and> Image_fromarray env big = Inr out \<longrightarrow>
       preprocess_image env img = (Inr out, []))
   \<and> (\<forall>d h rest out. denoised env img = Inr d \<and> shape env d = h # rest \<and> 300 \<le> h
        \<and> Image_fromarray env d = Inr out \<longrightarrow>
       preprocess_image env img = (Inr out, []))
   \<and> (\<forall>d. denoised env img = Inr d \<longleftrightarrow>
        (\<exists>a g b. np_array env img = Inr a \<and> to_gray env a = Inr g
           \<and> threshold_BINARY env g 150 255 = Inr b \<and> fastNlMeansDenoising env b 10 = Inr d))"
proof -
  have 1: "\<forall>d h rest. denoised env img = Inr d \<and> shape env d = h # rest \<and> h < 300 \<longrightarrow>
       preprocess_steps env img =
         (case resize env d 2 2 INTER_CUBIC of Inl e \<Rightarrow> Inl e | Inr big \<Rightarrow> Image_fromarray env big)"
    by (simp add: preprocess_steps_def upscale_def)
  have 2: "\<forall>d h rest. denoised env img = Inr d \<and> shape env d = h # rest \<and> 300 \<le> h \<longrightarrow>
       preprocess_steps env img = Image_fromarray env d"
    by (simp add: preprocess_steps_def upscale_def)
  have 3: "\<forall>d h rest big out. denoised env img = Inr d \<and> shape env d = h # rest \<and> h < 300
        \<and> resize env d 2 2 INTER_CUBIC = Inr big \<and> Image_fromarray env big = Inr out \<longrightarrow>
       preprocess_image env img = (Inr out, [])"
    by (simp add: preprocess_image_cases preprocess_steps_def upscale_def)
  have 4: "\<forall>d h rest out. denoised env img = Inr d \<and> shape env d = h # rest \<and> 300 \<le> h
        \<and> Image_fromarray env d = Inr out \<longrightarrow>
       preprocess_image env img = (Inr out, [])"
    by (simp add: preprocess_image_cases preprocess_steps_def upscale_def)
  have 5: "\<forall>d. denoised env img = Inr d \<longleftrightarrow>
        (\<exists>a g b. np_array env img = Inr a \<and> to_gray env a = Inr g
           \<and> threshold_BINARY env g 150 255 = Inr b \<and> fastNlMeansDenoising env b 10 = Inr d)"
    using denoised_iff [of env img] by blast
  from 1 2 3 4 5 show ?thesis by (intro conjI)
qed

theorem upscale_below_300_rows_witness:
  "denoised demo_env 5 = Inr 5 \<and> shape demo_env 5 = [60, 200, 3] \<and> (60::nat) < 300
   \<and> resize demo_env 5 2 2 INTER_CUBIC = Inr 205 \<and> Image_fromarray demo_env 205 = Inr 205
   \<and> preprocess_image demo_env 5 = (Inr 205, [])
   \<and> denoised demo_env 12 = Inr 12 \<and> shape demo_env 12 = [400, 600] \<and> (300::nat) \<le> 400
   \<and> Image_fromarray demo_env 12 = Inr 12
   \<and> preprocess_image demo_env 12 = (Inr 12, [])"
proof -
  have a: "denoised demo_env 5 = Inr 5" "shape demo_env 5 = [60, 200, 3]"
    "resize demo_env 5 2 2 INTER_CUBIC = Inr 205" "Image_fromarray demo_env 205 = Inr 205"
    by (simp_all add: denoised_def to_gray_def demo_env_def)
  have b: "denoised demo_env 12 = Inr 12" "shape demo_env 12 = [400, 600]"
    "Image_fromarray demo_env 12 = Inr 12"
    by (simp_all add: denoised_def to_gray_def demo_env_def)
  have 1: "preprocess_image demo_env 5 = (Inr 205, [])"
    using upscale_below_300_rows [of demo_env 5] by (simp add: a)
  have 2: "preprocess_image demo_env 12 = (Inr 12, [])"
    using upscale_below_300_rows [of demo_env 12] by (simp add: b)
  show ?thesis by (simp add: a b 1 2)
qed

section \<open>The solver with the shipped OCR processor\<close>

lemma fst_and_then:
  "fst (and_then m f) = (case fst m of Inl e \<Rightarrow> Inl e | Inr a \<Rightarrow> fst (f a))"
  by (cases m) (simp add: and_then_def split: sum.splits prod.splits)

lemma snd_and_then:
  "snd (and_then m f) = (case fst m of Inl e \<Rightarrow> snd m | Inr a \<Rightarrow> snd m @ snd (f a))"
  by (cases m) (simp add: and_then_def split: sum.splits prod.splits)

lemma snd_try_except:
  "snd (try_except m h) = (case fst m of Inl e \<Rightarrow> snd m @ snd (h e) | Inr a \<Rightarrow> snd m)"
  by (cases m) (simp add: try_except_def split: sum.splits prod.splits)

lemma fst_logger [simp]: "fst (logger lv m) = Inr ()" and snd_logger [simp]: "snd (logger lv m) = [(lv, m)]"
  by (simp_all add: logger_def)

lemmas fst_simps = fst_and_then fst_try_except
lemmas snd_simps = snd_and_then snd_try_except

lemma download_image_returns: "\<exists>r. fst (download_image self env url) = Inr r"
  by (auto simp: download_image_def Let_def fst_simps split: sum.splits)

lemma input_captcha_text_returns: "\<exists>r. fst (input_captcha_text env tx i) = Inr r"
  by (auto simp: input_captcha_text_def fst_simps split: sum.splits)

lemma extract_captcha_text_returns: "\<exists>r. fst (extract_captcha_text self env) = Inr r"
  by (auto simp: extract_captcha_text_def fst_simps split: sum.splits option.splits)

lemma solve_cases:
  "fst (solve self env i) =
     (case fst (extract_captcha_text self env) of
        Inl e \<Rightarrow> Inr False
      | Inr t \<Rightarrow> Inr (truthy t))"
  using input_captcha_text_returns [of env "str_of (projr (fst (extract_captcha_text self env)))" i]
  by (auto simp: solve_def fst_simps split: sum.splits)

lemma extract_with_OCRProcessor:
  "ocr_processor self = OCRProcessor_obj p \<Longrightarrow> fst (extract_captcha_text self env) = Inr None"
  by (simp add: extract_captcha_text_def fst_simps split: sum.splits option.splits)

text \<open>
  C10. With an instance of the class \<^verbatim>\<open>OCRProcessor\<close> of \<^verbatim>\<open>ocr.py\<close> as its OCR object
  (what \<^verbatim>\<open>CaptchaSolver.__init__\<close> builds by default), \<^verbatim>\<open>solve\<close> returns \<^verbatim>\<open>False\<close>
  and \<^verbatim>\<open>_extract_captcha_text\<close> returns \<^verbatim>\<open>None\<close>, whatever the page does: the call of
  \<^verbatim>\<open>extract_text\<close> raises \<^verbatim>\<open>AttributeError\<close>, which the method catches, when the image
  was found and downloaded, and the method returns \<^verbatim>\<open>None\<close> before that call otherwise.
\<close>

theorem solve_with_OCRProcessor_returns_False:
  "fst (solve \<lparr>ocr_processor = OCRProcessor_obj p, base_url = u\<rparr> env input_id) = Inr False
   \<and> fst (extract_captcha_text \<lparr>ocr_processor = OCRProcessor_obj p, base_url = u\<rparr> env) = Inr None
   \<and> (\<exists>m. call_extract_text (OCRProcessor_obj p) img = Inl (Exn AttributeError m))
   \<and> (\<exists>l. CaptchaSolver_init None =
         (Inr \<lparr>ocr_processor = OCRProcessor_obj \<lparr>language = ''spa'', enable_preprocessing = True\<rparr>,
               base_url = ''http://www.mercadopublico.cl''\<rparr>, l))"
  using extract_with_OCRProcessor [of "\<lparr>ocr_processor = OCRProcessor_obj p, base_url = u\<rparr>" p env]
  by (simp add: solve_cases truthy_def CaptchaSolver_init_def OCRProcessor_init_def)


section \<open>A failed injection\<close>

lemma demo_extract:
  "extract_captcha_text (stub_solver answer) demo_page =
     (Inr (if answer \<noteq> [] then Some (py_strip answer) else None), [])"
  by (simp add: extract_captcha_text_def stub_solver_def demo_page_def download_image_def
      truthy_def str_of_def startswith_def ret_def)

lemma demo_input:
  "input_captcha_text demo_page tx default_input_id =
     (Inr False, [(ERROR, ''Error inputting CAPTCHA text: {e}'')])"
  by (simp add: input_captcha_text_def lookup_field_def demo_page_def ret_def)

text \<open>
  C2 on the code, at one input: the stub recognises \<^verbatim>\<open>AB12\<close>, the page has no input
  field. \<^verbatim>\<open>_input_captcha_text\<close> logs the error and returns \<^verbatim>\<open>False\<close>; \<^verbatim>\<open>solve\<close> drops
  that result, logs the CAPTCHA as solved and returns \<^verbatim>\<open>True\<close>.
\<close>

theorem solve_reports_success_without_field:
  "find_element demo_page By_ID default_input_id = Inl (Exn NoSuchElementException ''no such element'')
   \<and> find_element demo_page By_CSS_SELECTOR (CHR ''#'' # default_input_id)
        = Inl (Exn NoSuchElementException ''no such element'')
   \<and> fst (extract_captcha_text (stub_solver ''AB12'') demo_page) = Inr (Some ''AB12'')
   \<and> input_captcha_text demo_page ''AB12'' default_input_id
        = (Inr False, [(ERROR, ''Error inputting CAPTCHA text: {e}'')])
   \<and> solve (stub_solver ''AB12'') demo_page default_input_id
        = (Inr True, [(ERROR, ''Error inputting CAPTCHA text: {e}''),
                      (INFO, ''CAPTCHA solved: {captcha_text}'')])"
proof -
  have s: "py_strip ''AB12'' = ''AB12''" by (simp add: py_strip_def py_isspace_def)
  have e: "extract_captcha_text (stub_solver ''AB12'') demo_page = (Inr (Some ''AB12''), [])"
    by (simp add: demo_extract s)
  have "solve (stub_solver ''AB12'') demo_page default_input_id
        = (Inr True, [(ERROR, ''Error inputting CAPTCHA text: {e}''),
                      (INFO, ''CAPTCHA solved: {captcha_text}'')])"
    by (simp add: solve_def e truthy_def str_of_def demo_input ret_def)
  then show ?thesis
    by (simp add: e demo_input) (simp add: demo_page_def)
qed

section \<open>Attempts of the caller\<close>

lemma solve_calls_simps [simp]:
  "solve_calls [] = 0"
  "solve_calls (l @ l') = solve_calls l + solve_calls l'"
  "solve_calls (entry # l) = (if solve_closing entry then 1 else 0) + solve_calls l"
  by (simp_all add: solve_calls_def)

lemma calls_download_image: "solve_calls (snd (download_image self env url)) = 0"
  by (simp add: download_image_def Let_def snd_simps fst_simps solve_closing_def
      split: sum.splits)

lemma calls_extract: "solve_calls (snd (extract_captcha_text self env)) = 0"
  by (simp add: extract_captcha_text_def snd_simps fst_simps calls_download_image
      solve_closing_def split: sum.splits option.splits)

lemma calls_input: "solve_calls (snd (input_captcha_text env tx i)) = 0"
  by (simp add: input_captcha_text_def snd_simps fst_simps solve_closing_def
      split: sum.splits)

lemma calls_solve: "solve_calls (snd (solve self env i)) = 1"
  by (simp add: solve_def snd_simps fst_simps calls_extract calls_input solve_closing_def
      split: sum.splits)

lemma calls_click: "solve_calls (snd (click_download env)) = 0"
  by (simp add: click_download_def get_latest_download_def snd_simps fst_simps
      solve_closing_def split: sum.splits)

lemma solve_returns: "\<exists>b. fst (solve self env i) = Inr b"
  by (cases "fst (extract_captcha_text self env)") (auto simp: solve_cases)

lemma download_attachment_unreachable:
  "driver_get env url = Inl e \<Longrightarrow>
   download_attachment self env url =
     (Inr None, [(ERROR, ''Error downloading attachment: {e}'')])"
  by (simp add: download_attachment_def ret_def)

lemma download_attachment_no_captcha:
  assumes "driver_get env url = Inr ()" and "\<not> has_captcha env"
  shows "download_attachment self env url =
     (case fst (click_download env) of
        Inl e \<Rightarrow>
          (Inr None, snd (click_download env) @ [(ERROR, ''Error downloading attachment: {e}'')])
      | Inr r \<Rightarrow> (Inr r, snd (click_download env)))"
  using assms
  by (cases "fst (click_download env)")
     (auto simp: download_attachment_def prod_eq_iff fst_simps snd_simps ret_def)

lemma download_attachment_captcha:
  assumes "driver_get env url = Inr ()" and "has_captcha env"
  shows "download_attachment self env url =
     (let s = solve (captcha_solver self) env default_input_id in
      if fst s = Inr True
      then (case fst (click_download env) of
              Inl e \<Rightarrow>
                (Inr None,
                 (INFO, ''CAPTCHA detected, attempting to solve...'') # snd s
                   @ snd (click_download env) @ [(ERROR, ''Error downloading attachment: {e}'')])
            | Inr r \<Rightarrow>
                (Inr r,
                 (INFO, ''CAPTCHA detected, attempting to solve...'') # snd s
                   @ snd (click_download env)))
      else (Inr None,
            (INFO, ''CAPTCHA detected, attempting to solve...'') # snd s
              @ [(WARNING, ''Failed to solve CAPTCHA'')]))"
proof -
  obtain b where b: "fst (solve (captcha_solver self) env default_input_id) = Inr b"
    using solve_returns [of "captcha_solver self" env default_input_id] by auto
  show ?thesis
    using assms b
    by (cases "fst (click_download env)")
       (auto simp: download_attachment_def Let_def prod_eq_iff fst_simps snd_simps ret_def)
qed

lemma calls_download_attachment:
  "solve_calls (snd (download_attachment self env url)) =
     (if driver_get env url = Inr () \<and> has_captcha env then 1 else 0)"
proof (cases "driver_get env url")
  case (Inl e)
  then show ?thesis
    by (simp add: download_attachment_unreachable solve_closing_def)
next
  case (Inr u)
  then have g: "driver_get env url = Inr ()" by simp
  show ?thesis
  proof (cases "has_captcha env")
    case True
    with g show ?thesis
      by (simp add: download_attachment_captcha Let_def calls_solve calls_click
          solve_closing_def split: sum.splits)
  next
    case False
    with g show ?thesis
      by (simp add: download_attachment_no_captcha calls_click solve_closing_def
          split: sum.splits)
  qed
qed

lemma demo_solve_empty:
  "solve (stub_solver []) demo_page default_input_id =
     (Inr False, [(WARNING, ''Failed to extract CAPTCHA text'')])"
  by (simp add: solve_def demo_extract truthy_def ret_def)

lemma demo_has_captcha: "has_captcha demo_page" "driver_get demo_page url = Inr ()"
  by (simp_all add: has_captcha_def demo_page_def)

text \<open>
  C4, as stated, fails: the code has no session, no maximum of attempts and no attempt
  records. With a recognition stub whose text is always empty, \<^verbatim>\<open>_download_attachment\<close>
  calls \<^verbatim>\<open>solve\<close> once, logs the failure and returns \<^verbatim>\<open>None\<close>: its log records one
  invocation of \<^verbatim>\<open>solve\<close>, not three.
\<close>

theorem one_attempt_not_three:
  "fst (extract_captcha_text (stub_solver []) demo_page) = Inr None
   \<and> download_attachment (demo_downloader []) demo_page ''https://www.mercadopublico.cl/a'' =
       (Inr None, [(INFO, ''CAPTCHA detected, attempting to solve...''),
                   (WARNING, ''Failed to extract CAPTCHA text''),
                   (WARNING, ''Failed to solve CAPTCHA'')])
   \<and> solve_calls (snd (download_attachment (demo_downloader []) demo_page
         ''https://www.mercadopublico.cl/a'')) = 1
   \<and> solve_calls (snd (download_attachment (demo_downloader []) demo_page
         ''https://www.mercadopublico.cl/a'')) \<noteq> 3"
proof -
  have d: "download_attachment (demo_downloader []) demo_page ''https://www.mercadopublico.cl/a'' =
       (Inr None, [(INFO, ''CAPTCHA detected, attempting to solve...''),
                   (WARNING, ''Failed to extract CAPTCHA text''),
                   (WARNING, ''Failed to solve CAPTCHA'')])"
    by (simp add: download_attachment_captcha [OF demo_has_captcha(2) demo_has_captcha(1)]
        demo_downloader_def demo_solve_empty)
  show ?thesis
    by (simp add: d demo_extract solve_closing_def)
qed

text \<open>
  C4, amended. \<^verbatim>\<open>_download_attachment\<close> is determined by one invocation of \<^verbatim>\<open>solve\<close>.
  When the page does not load it returns \<^verbatim>\<open>None\<close> without calling \<^verbatim>\<open>solve\<close>; when the
  page shows no CAPTCHA it goes to the download without calling \<^verbatim>\<open>solve\<close>. When the page
  loads and shows a CAPTCHA, its result and its whole log are those of a single call of
  \<^verbatim>\<open>solve\<close>: the notice of line 117, the log of that one call, then the download when
  the call returned \<^verbatim>\<open>True\<close>, and otherwise the warning \<^verbatim>\<open>Failed to solve CAPTCHA\<close> and
  the result \<^verbatim>\<open>None\<close>, with nothing after it. One invocation of \<^verbatim>\<open>solve\<close> writes
  exactly one closing entry, and the log of \<^verbatim>\<open>_download_attachment\<close> holds at most one:
  exactly one with a CAPTCHA on a loaded page, none otherwise. In particular, when the
  extracted text is empty the single attempt fails and there is no retry.
\<close>

theorem single_solve_attempt:
  "(\<forall>e. driver_get env url = Inl e \<longrightarrow>
        download_attachment self env url =
          (Inr None, [(ERROR, ''Error downloading attachment: {e}'')]))
   \<and> (driver_get env url = Inr () \<and> \<not> has_captcha env \<longrightarrow>
        download_attachment self env url =
          (case fst (click_download env) of
             Inl e \<Rightarrow>
               (Inr None,
                snd (click_download env) @ [(ERROR, ''Error downloading attachment: {e}'')])
           | Inr r \<Rightarrow> (Inr r, snd (click_download env))))
   \<and> (driver_get env url = Inr () \<and> has_captcha env \<longrightarrow>
        download_attachment self env url =
          (let s = solve (captcha_solver self) env default_input_id in
           if fst s = Inr True
           then (case fst (click_download env) of
                   Inl e \<Rightarrow>
                     (Inr None,
                      (INFO, ''CAPTCHA detected, attempting to solve...'') # snd s
                        @ snd (click_download env)
                        @ [(ERROR, ''Error downloading attachment: {e}'')])
                 | Inr r \<Rightarrow>
                     (Inr r,
                      (INFO, ''CAPTCHA detected, attempting to solve...'') # snd s
                        @ snd (click_download env)))
           else (Inr None,
                 (INFO, ''CAPTCHA detected, attempting to solve...'') # snd s
                   @ [(WARNING, ''Failed to solve CAPTCHA'')])))
   \<and> solve_calls (snd (solve (captcha_solver self) env default_input_id)) = 1
   \<and> solve_calls (snd (click_download env)) = 0
   \<and> solve_calls (snd (download_attachment self env url)) =
        (if driver_get env url = Inr () \<and> has_captcha env then 1 else 0)
   \<and> (\<forall>t. driver_get env url = Inr () \<and> has_captcha env
          \<and> fst (extract_captcha_text (captcha_solver self) env) = Inr t \<and> \<not> truthy t \<longrightarrow>
        download_attachment self env url =
          (Inr None,
           (INFO, ''CAPTCHA detected, attempting to solve...'')
             # snd (solve (captcha_solver self) env default_input_id)
             @ [(WARNING, ''Failed to solve CAPTCHA'')]))"
proof -
  have 1: "\<forall>e. driver_get env url = Inl e \<longrightarrow>
        download_attachment self env url =
          (Inr None, [(ERROR, ''Error downloading attachment: {e}'')])"
    by (simp add: download_attachment_unreachable)
  have 2: "driver_get env url = Inr () \<and> \<not> has_captcha env \<longrightarrow>
        download_attachment self env url =
          (case fst (click_download env) of
             Inl e \<Rightarrow>
               (Inr None,
                snd (click_download env) @ [(ERROR, ''Error downloading attachment: {e}'')])
           | Inr r \<Rightarrow> (Inr r, snd (click_download env)))"
    using download_attachment_no_captcha [of env url self] by blast
  have 3: "driver_get env url = Inr () \<and> has_captcha env \<longrightarrow>
        download_attachment self env url =
          (let s = solve (captcha_solver self) env default_input_id in
           if fst s = Inr True
           then (case fst (click_download env) of
                   Inl e \<Rightarrow>
                     (Inr None,
                      (INFO, ''CAPTCHA detected, attempting to solve...'') # snd s
                        @ snd (click_download env)
                        @ [(ERROR, ''Error downloading attachment: {e}'')])
                 | Inr r \<Rightarrow>
                     (Inr r,
                      (INFO, ''CAPTCHA detected, attempting to solve...'') # snd s
                        @ snd (click_download env)))
           else (Inr None,
                 (INFO, ''CAPTCHA detected, attempting to solve...'') # snd s
                   @ [(WARNING, ''Failed to solve CAPTCHA'')]))"
    using download_attachment_captcha [of env url self] by blast
  have 4: "\<forall>t. driver_get env url = Inr () \<and> has_captcha env
          \<and> fst (extract_captcha_text (captcha_solver self) env) = Inr t \<and> \<not> truthy t \<longrightarrow>
        download_attachment self env url =
          (Inr None,
           (INFO, ''CAPTCHA detected, attempting to solve...'')
             # snd (solve (captcha_solver self) env default_input_id)
             @ [(WARNING, ''Failed to solve CAPTCHA'')])"
    by (simp add: download_attachment_captcha Let_def solve_cases)
  from 1 2 3 calls_solve [of "captcha_solver self" env default_input_id] calls_click [of env]
    calls_download_attachment [of self env url] 4
  show ?thesis by (intro conjI)
qed

theorem single_solve_attempt_witness:
  "driver_get demo_page ''https://www.mercadopublico.cl/a'' = Inr () \<and> has_captcha demo_page
   \<and> fst (extract_captcha_text (captcha_solver (demo_downloader [])) demo_page) = Inr None
   \<and> \<not> truthy None
   \<and> solve_calls (snd (download_attachment (demo_downloader []) demo_page
         ''https://www.mercadopublico.cl/a'')) = 1
   \<and> download_attachment (demo_downloader []) demo_page ''https://www.mercadopublico.cl/a'' =
       (Inr None, [(INFO, ''CAPTCHA detected, attempting to solve...''),
                   (WARNING, ''Failed to extract CAPTCHA text''),
                   (WARNING, ''Failed to solve CAPTCHA'')])"
proof -
  note t = single_solve_attempt [of demo_page "''https://www.mercadopublico.cl/a''" "demo_downloader []"]
  have e: "fst (extract_captcha_text (captcha_solver (demo_downloader [])) demo_page) = Inr None"
    by (simp add: demo_downloader_def demo_extract)
  have n: "\<not> truthy None" by (simp add: truthy_def)
  have g: "driver_get demo_page ''https://www.mercadopublico.cl/a'' = Inr ()"
    by (rule demo_has_captcha(2))
  have c: "solve_calls (snd (download_attachment (demo_downloader []) demo_page
         ''https://www.mercadopublico.cl/a'')) =
        (if driver_get demo_page ''https://www.mercadopublico.cl/a'' = Inr ()
            \<and> has_captcha demo_page then 1 else 0)"
    using t by blast
  have 1: "solve_calls (snd (download_attachment (demo_downloader []) demo_page
         ''https://www.mercadopublico.cl/a'')) = 1"
    using c g demo_has_captcha(1) by simp
  have "download_attachment (demo_downloader []) demo_page ''https://www.mercadopublico.cl/a'' =
          (Inr None,
           (INFO, ''CAPTCHA detected, attempting to solve...'')
             # snd (solve (captcha_solver (demo_downloader [])) demo_page default_input_id)
             @ [(WARNING, ''Failed to solve CAPTCHA'')])"
    using t g demo_has_captcha(1) e n by blast
  then have 2: "download_attachment (demo_downloader []) demo_page
        ''https://www.mercadopublico.cl/a'' =
       (Inr None, [(INFO, ''CAPTCHA detected, attempting to solve...''),
                   (WARNING, ''Failed to extract CAPTCHA text''),
                   (WARNING, ''Failed to solve CAPTCHA'')])"
    by (simp add: demo_downloader_def demo_solve_empty)
  from g demo_has_captcha(1) e n 1 2 show ?thesis by (intro conjI)
qed

section \<open>Rows of the reconstructed table\<close>

lemma extract_table_data_ok:
  "load_image env src = Inr img0 \<Longrightarrow> maybe_preprocess self env img0 = (Inr img, l) \<Longrightarrow>
   image_to_data env img (language self) = Inr data \<Longrightarrow> token_columns data = Inr tokens \<Longrightarrow>
   extract_table_data self env src =
     (Inr \<lparr>t_table = reconstruct_table tokens, t_row_count = length (reconstruct_table tokens),
           t_success = True, t_error = None\<rparr>,
      l @ [(INFO, ''Extracted table with {len(sorted_rows)} rows'')])"
  by (simp add: extract_table_data_def Let_def ret_def)

lemma demo_token_columns:
  "token_columns demo_data =
     Inr [(30, 100, 5, 5, 90, ''b''), (3, 104, 5, 5, 85, ''a''), (0, 112, 5, 5, 0, ''z''),
          (7, 112, 5, 5, - 1, [])]"
  by (simp add: token_columns_def getitem_def demo_data_def zip_columns_def)

lemma demo_data_table:
  "reconstruct_table [(30, 100, 5, 5, 90, ''b''), (3, 104, 5, 5, 85, ''a''), (0, 112, 5, 5, 0, ''z''),
          (7, 112, 5, 5, - 1, [])] = [[''a'', ''b'']]"
  by (simp add: reconstruct_table_def sorted_rows_def sorted_items_def
      qualifies_def py_strip_def py_isspace_def demo_keys rows_get_def)

lemma demo_table_run_facts:
  "load_image demo_env (PilImage 5) = Inr 5"
  "maybe_preprocess demo_processor demo_env 5 = (Inr 205, [])"
  "image_to_data demo_env 205 (language demo_processor) = Inr demo_data"
  by (simp_all add: load_image_def maybe_preprocess_def demo_processor_def demo_preprocess)
     (simp add: demo_env_def)

text \<open>
  C6, as stated, fails: a token whose text is a single space has a positive confidence
  and a non-empty text, and the loop discards it (\<^verbatim>\<open>text.strip()\<close> is empty).
\<close>

theorem whitespace_token_discarded:
  "(0::int) < 90 \<and> '' '' \<noteq> ([] :: string)
   \<and> reconstruct_table [(0, 100, 5, 5, 90, '' '')] = []"
  by (simp add: reconstruct_table_def sorted_rows_def sorted_items_def qualifies_def
      py_strip_def py_isspace_def)

text \<open>
  C6, amended. The table keeps exactly the tokens with confidence above 0 whose text is
  not empty after stripping whitespace (so it discards those with confidence at most 0 and
  those whose text is empty or all whitespace): the texts of the table are, with
  multiplicity, the texts of the kept tokens. The rows are the buckets in strictly
  ascending order of their key; a row is not empty and holds the kept tokens of its key
  sorted by ascending \<open>x\<close>. With no kept token the table is the empty list. When the
  image loads and the engine returns its data, \<^verbatim>\<open>extract_table_data\<close> returns this table
  with \<^verbatim>\<open>success = True\<close>, the empty table included.
\<close>

theorem table_rows_ordered:
  "mset (concat (reconstruct_table tokens)) = mset (map tok_text (qualifying tokens))
   \<and> qualifying tokens = filter (\<lambda>(x, y, w, h, conf, tx). 0 < conf \<and> py_strip tx \<noteq> []) tokens
   \<and> reconstruct_table tokens
       = map (\<lambda>(k, its). map it_text its) (sorted_items (group_rows tokens []))
   \<and> sorted (map fst (sorted_items (group_rows tokens [])))
   \<and> distinct (map fst (sorted_items (group_rows tokens [])))
   \<and> (\<forall>(k, its) \<in> set (sorted_items (group_rows tokens [])).
        its = sort_key it_x (bucket k tokens) \<and> its \<noteq> [] \<and> sorted (map it_x its))
   \<and> (qualifying tokens = [] \<longrightarrow> reconstruct_table tokens = [])
   \<and> (\<forall>img0 img l data.
        load_image env src = Inr img0 \<and> maybe_preprocess self env img0 = (Inr img, l)
        \<and> image_to_data env img (language self) = Inr data \<and> token_columns data = Inr tokens
        \<longrightarrow> fst (extract_table_data self env src) =
              Inr \<lparr>t_table = reconstruct_table tokens,
                   t_row_count = length (reconstruct_table tokens),
                   t_success = True, t_error = None\<rparr>)"
proof -
  have a: "\<forall>(k, its) \<in> set (sorted_items (group_rows tokens [])).
        its = sort_key it_x (bucket k tokens) \<and> its \<noteq> [] \<and> sorted (map it_x its)"
    using sorted_items_bucket [of _ _ tokens] by fastforce
  have b: "qualifying tokens = [] \<longrightarrow> reconstruct_table tokens = []"
    by (simp add: reconstruct_table_closed)
  have c: "qualifying tokens = filter (\<lambda>(x, y, w, h, conf, tx). 0 < conf \<and> py_strip tx \<noteq> []) tokens"
    by (simp add: qualifying_def qualifies_def)
  have d: "\<forall>img0 img l data.
        load_image env src = Inr img0 \<and> maybe_preprocess self env img0 = (Inr img, l)
        \<and> image_to_data env img (language self) = Inr data \<and> token_columns data = Inr tokens
        \<longrightarrow> fst (extract_table_data self env src) =
              Inr \<lparr>t_table = reconstruct_table tokens,
                   t_row_count = length (reconstruct_table tokens),
                   t_success = True, t_error = None\<rparr>"
    by (auto simp: extract_table_data_ok)
  have e: "reconstruct_table tokens
       = map (\<lambda>(k, its). map it_text its) (sorted_items (group_rows tokens []))"
    by (simp add: reconstruct_table_def sorted_rows_def)
  from mset_table [of tokens] c e keys_strictly_ascending [of tokens] a b d
  show ?thesis by (intro conjI) simp_all
qed

theorem table_rows_ordered_witness:
  "mset (concat (reconstruct_table demo_tokens)) = mset (map tok_text (qualifying demo_tokens))
   \<and> reconstruct_table demo_tokens = [[''top''], [''a'', ''b''], [''c '']]
   \<and> qualifying [(0, 100, 5, 5, 0, ''z'')] = []
   \<and> reconstruct_table [(0, 100, 5, 5, 0, ''z'')] = []
   \<and> fst (extract_table_data demo_processor demo_env (PilImage 5)) =
       Inr \<lparr>t_table = [[''a'', ''b'']], t_row_count = 1, t_success = True, t_error = None\<rparr>"
proof -
  have m: "mset (concat (reconstruct_table demo_tokens)) = mset (map tok_text (qualifying demo_tokens))"
    using table_rows_ordered [of demo_tokens demo_env "PilImage 5" demo_processor]
    by (rule conjunct1)
  have q: "qualifying [(0, 100, 5, 5, 0, ''z'')] = []"
    by (simp add: qualifying_def qualifies_def)
  have "qualifying [(0, 100, 5, 5, 0, ''z'')] = [] \<longrightarrow> reconstruct_table [(0, 100, 5, 5, 0, ''z'')] = []"
    using table_rows_ordered [of "[(0, 100, 5, 5, 0, ''z'')]" demo_env "PilImage 5" demo_processor]
    by blast
  with q have e: "reconstruct_table [(0, 100, 5, 5, 0, ''z'')] = []"
    by (rule rev_mp)
  let ?ts = "[(30, 100, 5, 5, 90, ''b''), (3, 104, 5, 5, 85, ''a''), (0, 112, 5, 5, 0, ''z''),
          (7, 112, 5, 5, - 1, [])] :: token list"
  have "fst (extract_table_data demo_processor demo_env (PilImage 5)) =
       Inr \<lparr>t_table = reconstruct_table ?ts, t_row_count = length (reconstruct_table ?ts),
            t_success = True, t_error = None\<rparr>"
    using table_rows_ordered [of ?ts demo_env "PilImage 5" demo_processor]
      demo_table_run_facts demo_token_columns
    by blast
  then have r: "fst (extract_table_data demo_processor demo_env (PilImage 5)) =
       Inr \<lparr>t_table = [[''a'', ''b'']], t_row_count = 1, t_success = True, t_error = None\<rparr>"
    by (simp add: demo_data_table)
  from m demo_table q e r show ?thesis by simp
qed

end
